theory Spec2Isabelle
  imports Main
begin

section \<open>The router (router/index.js)\<close>

text \<open>
  The two view components the router imports. The constructors carry a suffix because
  \<open>Video\<close> is also a track kind below.
\<close>

datatype component = HomeView | VideoView

record route =
  path :: string
  name :: string
  component :: component

definition routes :: "route list" where
  "routes =
     [\<lparr>path = ''/'', name = ''home'', component = HomeView\<rparr>,
      \<lparr>path = ''/video'', name = ''video'', component = VideoView\<rparr>]"

record vue_router =
  mode :: string
  base :: string
  router_routes :: "route list"

text \<open>\<open>process.env.BASE_URL\<close> is the build's environment and enters as a parameter.\<close>

definition router :: "string \<Rightarrow> vue_router" where
  "router base_url = \<lparr>mode = ''history'', base = base_url, router_routes = routes\<rparr>"


section \<open>The objects of the video SDK, as the view reads them\<close>

text \<open>
  Tracks are objects that several references share (a publication's \<open>track\<close>, the
  closure variable \<open>localVideoTrack\<close>), and they are mutated through those references
  (\<open>enable\<close>, \<open>disable\<close>, \<open>stop\<close>). They live in a heap indexed by object reference;
  publications hold a reference, \<open>None\<close> being JavaScript's \<open>null\<close>.
\<close>

datatype kind = Audio | Video | Data

record track =
  kind :: kind
  isEnabled :: bool
  isStopped :: bool

record publication =
  pub_ref :: nat
  track :: "nat option"

text \<open>
  A participant carries its object identity \<open>ref\<close> (what \<open>===\<close> compares) and the three
  publication maps the view iterates, each in insertion order.
\<close>

record participant =
  ref :: nat
  identity :: string
  sid :: string
  tracks :: "publication list"
  audioTracks :: "publication list"
  videoTracks :: "publication list"

text \<open>
  The Room: its \<open>participants\<close> map (from SID to remote participant, in insertion
  order), which the SDK keeps up to date, and its \<open>state\<close>, connected when \<open>connect\<close>
  resolves and disconnected for good after the \<open>disconnected\<close> event (a reconnecting
  Room counts as connected here). \<open>disconnectCalls\<close> counts the invocations of
  \<open>room.disconnect()\<close>.
\<close>

datatype room_state = RoomConnected | RoomDisconnected

record room =
  localParticipant :: participant
  participants :: "participant list"
  roomState :: room_state
  disconnectCalls :: nat

datatype error = TypeError | NotFoundError | TwilioError nat


section \<open>The page: DOM, window handlers, component data\<close>

text \<open>An \<open>audio\<close> or \<open>video\<close> element; \<open>attached\<close> lists the tracks attached to it.\<close>

record element =
  tagName :: kind
  autoplay :: bool
  muted :: bool
  playsinline :: bool
  opacity :: string
  attached :: "nat list"

record container =
  cid :: string
  className :: string
  data_identity :: string
  childNodes :: "element list"

text \<open>
  The functions assigned to the handler properties: \<open>() => { room.disconnect(); }\<close> to
  \<open>window.onbeforeunload\<close> and \<open>window.onpagehide\<close>, the asynchronous visibility
  handler to \<open>document.onvisibilitychange\<close>. The body of the latter consists of SDK
  calls on the local video track and is not unfolded here.
\<close>

datatype unload_handler = DisconnectRoom

datatype visibility_handler = VisibilityChange

datatype promise = Pending | Resolved | Rejected error

text \<open>
  The helper module that exports \<open>isMobile\<close> is not among the sources: the binding is a
  nullary function, given by the value its call returns.
\<close>

datatype js_function = Fn bool

fun call :: "js_function \<Rightarrow> bool" where
  "call (Fn b) = b"

text \<open>A function object converts to \<open>true\<close> in a condition, whatever it returns.\<close>

fun truthy :: "js_function \<Rightarrow> bool" where
  "truthy (Fn b) = True"

text \<open>
  The event listeners the view registers on SDK objects. Each stands for one arrow
  function of the source together with the variables it closes over: the object it is
  registered on (by reference) and the \<open>participant\<close> it passes on. The Room listeners
  of the second copy of the view carry the suffix \<open>_plain\<close>.
\<close>

datatype listener =
    OnTrackPublished nat participant
  | OnSubscribed nat participant
  | OnUnsubscribed nat participant
  | OnParticipantConnected
  | OnParticipantDisconnected
  | OnceDisconnected
  | OnParticipantConnected_plain
  | OnParticipantDisconnected_plain
  | OnceDisconnected_plain

text \<open>
  The state: the component's \<open>data()\<close>, the children of \<open>#participants\<close> that are
  participant containers (the static \<open>.message\<close> child is represented by its
  \<open>display\<close> style), the label of the mute button, the three handler properties of
  \<open>window\<close> and \<open>document\<close> and the property \<open>window.room\<close>, the closure variable
  \<open>localVideoTrack\<close> of \<open>createChat\<close>, the promise \<open>createChat\<close> returns, the track
  heap, the registered listeners and the imported \<open>isMobile\<close>. The field \<open>room\<close> is \<open>this.room\<close>; the constant \<open>room\<close> of
  \<open>createChat\<close> refers to the same object, so both are this one field.
\<close>

record state =
  loading :: bool
  messageState :: string
  room :: "room option"
  roomName :: "string option"
  userToken :: "string option"
  participantsDiv :: "container list"
  messageDisplay :: string
  toggleMuteHTML :: string
  onbeforeunload :: "unload_handler option"
  onpagehide :: "unload_handler option"
  onvisibilitychange :: "visibility_handler option"
  window_room :: "room option"
  localVideoTrack :: "nat option"
  promise :: promise
  trackHeap :: "nat \<Rightarrow> track"
  listeners :: "listener list"
  isMobile :: js_function

text \<open>A call either returns or throws; the mutations made before a throw persist.\<close>

datatype result = Normal state | Throw error state

fun state_of :: "result \<Rightarrow> state" where
  "state_of (Normal s) = s"
| "state_of (Throw e s) = s"

fun bind :: "result \<Rightarrow> (state \<Rightarrow> result) \<Rightarrow> result" where
  "bind (Normal s) f = f s"
| "bind (Throw e s) f = Throw e s"

text \<open>\<open>forEach\<close> over a map's entries: the callback runs in order until one throws.\<close>

fun forEach :: "('a \<Rightarrow> state \<Rightarrow> result) \<Rightarrow> 'a list \<Rightarrow> state \<Rightarrow> result" where
  "forEach f [] s = Normal s"
| "forEach f (x # xs) s = bind (f x s) (forEach f xs)"

subsection \<open>Selectors\<close>

text \<open>
  Participant SIDs are issued by the SDK and are CSS identifiers, so \<open>#sid\<close> is an id
  lookup: the first element in document order with that id. The document outside the
  component's template is not part of the sources; inside it the only static id is
  \<open>participants\<close>, whose element precedes every container.
\<close>

fun index_of :: "('a \<Rightarrow> bool) \<Rightarrow> 'a list \<Rightarrow> nat option" where
  "index_of P [] = None"
| "index_of P (x # xs) = (if P x then Some 0 else map_option Suc (index_of P xs))"

datatype node = ParticipantsDiv | ContainerDiv nat

definition querySelector_id :: "string \<Rightarrow> state \<Rightarrow> node option" where
  "querySelector_id i s =
     (if i = ''participants'' then Some ParticipantsDiv
      else map_option ContainerDiv (index_of (\<lambda>c. cid c = i) (participantsDiv s)))"

text \<open>
  \<open>#sid > kind\<close>: the first element in document order with that tag whose parent has
  that id, as (index of the container, index of the child). The static
  \<open>#participants\<close> element has no media children.
\<close>

fun first_child :: "string \<Rightarrow> kind \<Rightarrow> container list \<Rightarrow> (nat \<times> nat) option" where
  "first_child i k [] = None"
| "first_child i k (c # cs) =
     (case (if cid c = i then index_of (\<lambda>e. tagName e = k) (childNodes c) else None) of
        Some j \<Rightarrow> Some (0, j)
      | None \<Rightarrow> map_option (\<lambda>(n, j). (Suc n, j)) (first_child i k cs))"

definition update_child :: "nat \<Rightarrow> nat \<Rightarrow> (element \<Rightarrow> element) \<Rightarrow> container list \<Rightarrow> container list" where
  "update_child n j f cs =
     cs[n := (cs ! n)\<lparr>childNodes := (childNodes (cs ! n))[j := f (childNodes (cs ! n) ! j)]\<rparr>]"

definition remove_nth :: "nat \<Rightarrow> 'a list \<Rightarrow> 'a list" where
  "remove_nth n xs = take n xs @ drop (Suc n) xs"


section \<open>The view component (views/Video.vue)\<close>

definition messages :: "string \<rightharpoonup> string" where
  "messages = [''waiting'' \<mapsto> ''Waiting for participant...'',
               ''disconnect'' \<mapsto> ''Participant left the call.'']"

definition message :: "state \<Rightarrow> string option" where
  "message s = messages (messageState s)"

definition createElement :: "kind \<Rightarrow> element" where
  "createElement k =
     \<lparr>tagName = k, autoplay = False, muted = False, playsinline = False,
      opacity = '''', attached = []\<rparr>"

definition setupParticipantContainer :: "participant \<Rightarrow> room \<Rightarrow> string \<Rightarrow> state \<Rightarrow> state" where
  "setupParticipantContainer p r cls s =
     (let audio = (createElement Audio)
            \<lparr>autoplay := True, muted := (ref p = ref (localParticipant r)), opacity := ''0''\<rparr>;
          video = (createElement Video)
            \<lparr>autoplay := True, muted := True, playsinline := True, opacity := ''0''\<rparr>;
          container = \<lparr>cid = sid p, className = cls, data_identity = identity p,
                       childNodes = [audio, video]\<rparr>;
          s1 = (if cls \<noteq> ''local'' then s\<lparr>messageDisplay := ''none''\<rparr> else s)
      in s1\<lparr>participantsDiv := participantsDiv s1 @ [container]\<rparr>)"

text \<open>
  \<open>media.style.opacity = ...\<close> throws a TypeError when the selector found nothing.
  \<open>track.attach\<close> and \<open>track.detach\<close> are SDK calls: they add the track to the element
  and take it away.
\<close>

definition attachTrack :: "nat \<Rightarrow> participant \<Rightarrow> state \<Rightarrow> result" where
  "attachTrack t p s =
     (case first_child (sid p) (kind (trackHeap s t)) (participantsDiv s) of
        None \<Rightarrow> Throw TypeError s
      | Some (n, j) \<Rightarrow>
          Normal (s\<lparr>participantsDiv :=
            update_child n j (\<lambda>m. m\<lparr>opacity := '''', attached := List.insert t (attached m)\<rparr>)
              (participantsDiv s)\<rparr>))"

definition detachTrack :: "nat \<Rightarrow> participant \<Rightarrow> state \<Rightarrow> result" where
  "detachTrack t p s =
     (case first_child (sid p) (kind (trackHeap s t)) (participantsDiv s) of
        None \<Rightarrow> Throw TypeError s
      | Some (n, j) \<Rightarrow>
          Normal (s\<lparr>participantsDiv :=
            update_child n j (\<lambda>m. m\<lparr>opacity := ''0'', attached := removeAll t (attached m)\<rparr>)
              (participantsDiv s)\<rparr>))"

definition trackPublished :: "publication \<Rightarrow> participant \<Rightarrow> state \<Rightarrow> result" where
  "trackPublished pub p s =
     bind (case track pub of Some t \<Rightarrow> attachTrack t p s | None \<Rightarrow> Normal s)
       (\<lambda>s1. Normal (s1\<lparr>listeners := listeners s1 @
                [OnSubscribed (pub_ref pub) p, OnUnsubscribed (pub_ref pub) p]\<rparr>))"

definition participantConnected :: "participant \<Rightarrow> room \<Rightarrow> string \<Rightarrow> state \<Rightarrow> result" where
  "participantConnected p r cls s =
     bind (forEach (\<lambda>pub. trackPublished pub p) (tracks p) (setupParticipantContainer p r cls s))
       (\<lambda>s1. Normal (s1\<lparr>listeners := listeners s1 @ [OnTrackPublished (ref p) p]\<rparr>))"

definition setMessage :: "string \<Rightarrow> state \<Rightarrow> state" where
  "setMessage m s = s\<lparr>messageState := m, messageDisplay := ''flex''\<rparr>"

text \<open>
  \<open>removeChild(null)\<close> throws a TypeError; \<open>removeChild\<close> of a node that is not a child
  (the \<open>#participants\<close> element itself) throws a NotFoundError. Either way the message
  is not set.
\<close>

definition participantDisconnected :: "participant \<Rightarrow> state \<Rightarrow> result" where
  "participantDisconnected p s =
     (case querySelector_id (sid p) s of
        None \<Rightarrow> Throw TypeError s
      | Some ParticipantsDiv \<Rightarrow> Throw NotFoundError s
      | Some (ContainerDiv n) \<Rightarrow>
          Normal (setMessage ''disconnect''
            (s\<lparr>participantsDiv := remove_nth n (participantsDiv s)\<rparr>)))"

text \<open>
  One iteration of \<open>toggleMute\<close>. The \<open>isTrackEnabled\<close> of a local publication is the
  \<open>isEnabled\<close> of its track, which \<open>disable()\<close> and \<open>enable()\<close> set. A local
  publication always has its track; reading a property of \<open>null\<close> would throw.
\<close>

definition toggleMute_each :: "publication \<Rightarrow> state \<Rightarrow> result" where
  "toggleMute_each pub s =
     (case track pub of
        None \<Rightarrow> Throw TypeError s
      | Some t \<Rightarrow>
          (if isEnabled (trackHeap s t)
           then Normal (s\<lparr>toggleMuteHTML := ''Unmute'',
                          trackHeap := (trackHeap s)(t := (trackHeap s t)\<lparr>isEnabled := False\<rparr>)\<rparr>)
           else Normal (s\<lparr>toggleMuteHTML := ''Mute'',
                          trackHeap := (trackHeap s)(t := (trackHeap s t)\<lparr>isEnabled := True\<rparr>)\<rparr>)))"

definition toggleMute :: "state \<Rightarrow> result" where
  "toggleMute s =
     (case room s of
        None \<Rightarrow> Throw TypeError s
      | Some r \<Rightarrow> forEach toggleMute_each (audioTracks (localParticipant r)) s)"

subsection \<open>Joining a room\<close>

text \<open>
  Settling the promise \<open>createChat\<close> returns; a settled promise ignores later calls.
\<close>

definition resolve :: "state \<Rightarrow> state" where
  "resolve s = (if promise s = Pending then s\<lparr>promise := Resolved\<rparr> else s)"

definition reject :: "error \<Rightarrow> state \<Rightarrow> state" where
  "reject e s = (if promise s = Pending then s\<lparr>promise := Rejected e\<rparr> else s)"

text \<open>
  The \<open>disconnected\<close> listener up to its final \<open>if (error)\<close>. The condition
  \<open>if (isMobile)\<close> tests the imported function, not its result. The listener's \<open>room\<close>
  parameter is the Room that emits the event.
\<close>

definition teardown :: "state \<Rightarrow> result" where
  "teardown s =
     (let s1 = s\<lparr>onbeforeunload := None\<rparr>;
          s2 = (if truthy (isMobile s1)
                then s1\<lparr>onpagehide := None, onvisibilitychange := None\<rparr> else s1)
      in case localVideoTrack s2 of
           None \<Rightarrow> Throw TypeError s2
         | Some t \<Rightarrow>
             (let s3 = s2\<lparr>trackHeap := (trackHeap s2)(t := (trackHeap s2 t)\<lparr>isStopped := True\<rparr>)\<rparr>
              in case room s3 of
                   None \<Rightarrow> Throw TypeError s3
                 | Some r \<Rightarrow>
                     bind (participantDisconnected (localParticipant r) s3)
                       (forEach participantDisconnected (participants r))))"

definition on_disconnected :: "error option \<Rightarrow> state \<Rightarrow> result" where
  "on_disconnected err s =
     bind (teardown s)
       (\<lambda>s1. Normal (case err of Some e \<Rightarrow> reject e s1 | None \<Rightarrow> resolve s1))"

text \<open>
  The executor of the promise \<open>createChat\<close> returns: it installs the unload handler,
  on a mobile browser the page-hide and visibility handlers, and registers the
  \<open>disconnected\<close> listener with \<open>once\<close>.
\<close>

definition executor :: "state \<Rightarrow> state" where
  "executor s =
     (let s1 = s\<lparr>onbeforeunload := Some DisconnectRoom\<rparr>;
          s2 = (if call (isMobile s1)
                then s1\<lparr>onpagehide := Some DisconnectRoom,
                        onvisibilitychange := Some VisibilityChange\<rparr>
                else s1)
      in s2\<lparr>listeners := listeners s2 @ [OnceDisconnected]\<rparr>)"

text \<open>
  \<open>createChat\<close> after \<open>connect\<close> has resolved with the Room \<open>r\<close>, up to the
  \<open>return new Promise(...)\<close>, whose executor runs at once. Reading \<open>.track\<close> of the
  first element of an empty array throws a TypeError.
\<close>

definition createChat_body :: "room \<Rightarrow> state \<Rightarrow> result" where
  "createChat_body r s =
     (let s1 = s\<lparr>loading := False, room := Some r\<rparr>
      in case videoTracks (localParticipant r) of
           [] \<Rightarrow> Throw TypeError s1
         | pub # rest \<Rightarrow>
             bind (participantConnected (localParticipant r) r ''local''
                    (s1\<lparr>localVideoTrack := track pub\<rparr>))
            (\<lambda>s2. bind (forEach (\<lambda>p. participantConnected p r ''participant'') (participants r) s2)
            (\<lambda>s3. Normal
               (executor (s3\<lparr>listeners := listeners s3 @
                  [OnParticipantConnected, OnParticipantDisconnected]\<rparr>)))))"

text \<open>
  \<open>createChat\<close> is an \<open>async\<close> function: its argument here is the outcome of
  \<open>await connect(token, connectOptions)\<close>. A rejected \<open>connect\<close> and an exception in
  the body both reject the returned promise; otherwise the returned promise is the one
  created at the end of the body.
\<close>

definition createChat :: "error + room \<Rightarrow> state \<Rightarrow> state" where
  "createChat connected s =
     (case connected of
        Inl e \<Rightarrow> reject e s
      | Inr r \<Rightarrow>
          (case createChat_body r s of
             Normal s1 \<Rightarrow> s1
           | Throw e s1 \<Rightarrow> reject e s1))"


section \<open>The second copy of the view\<close>

text \<open>
  The sources hold a second copy of the view component, without the status message
  and without the two buttons. Its \<open>attachTrack\<close>, \<open>detachTrack\<close> and
  \<open>trackPublished\<close> are the ones above; the methods that differ carry the suffix
  \<open>_plain\<close>. It has no \<open>this.room\<close>: the field \<open>room\<close> is the constant \<open>room\<close> of
  its \<open>createChat\<close>.
\<close>

definition setupParticipantContainer_plain :: "participant \<Rightarrow> room \<Rightarrow> state \<Rightarrow> state" where
  "setupParticipantContainer_plain p r s =
     (let audio = (createElement Audio)
            \<lparr>autoplay := True, muted := (ref p = ref (localParticipant r)), opacity := ''0''\<rparr>;
          video = (createElement Video)
            \<lparr>autoplay := True, muted := True, playsinline := True, opacity := ''0''\<rparr>;
          container = \<lparr>cid = sid p, className = '''', data_identity = identity p,
                       childNodes = [audio, video]\<rparr>
      in s\<lparr>participantsDiv := participantsDiv s @ [container]\<rparr>)"

definition participantConnected_plain :: "participant \<Rightarrow> room \<Rightarrow> state \<Rightarrow> result" where
  "participantConnected_plain p r s =
     bind (forEach (\<lambda>pub. trackPublished pub p) (tracks p) (setupParticipantContainer_plain p r s))
       (\<lambda>s1. Normal (s1\<lparr>listeners := listeners s1 @ [OnTrackPublished (ref p) p]\<rparr>))"

definition participantDisconnected_plain :: "participant \<Rightarrow> state \<Rightarrow> result" where
  "participantDisconnected_plain p s =
     (case querySelector_id (sid p) s of
        None \<Rightarrow> Throw TypeError s
      | Some ParticipantsDiv \<Rightarrow> Throw NotFoundError s
      | Some (ContainerDiv n) \<Rightarrow>
          Normal (s\<lparr>participantsDiv := remove_nth n (participantsDiv s)\<rparr>))"

text \<open>Here only the remote participants' containers are removed, and \<open>window.room\<close> is cleared.\<close>

definition teardown_plain :: "state \<Rightarrow> result" where
  "teardown_plain s =
     (let s1 = s\<lparr>onbeforeunload := None\<rparr>;
          s2 = (if truthy (isMobile s1)
                then s1\<lparr>onpagehide := None, onvisibilitychange := None\<rparr> else s1)
      in case localVideoTrack s2 of
           None \<Rightarrow> Throw TypeError s2
         | Some t \<Rightarrow>
             (let s3 = s2\<lparr>trackHeap := (trackHeap s2)(t := (trackHeap s2 t)\<lparr>isStopped := True\<rparr>)\<rparr>
              in case room s3 of
                   None \<Rightarrow> Throw TypeError s3
                 | Some r \<Rightarrow>
                     bind (forEach participantDisconnected_plain (participants r) s3)
                       (\<lambda>s4. Normal (s4\<lparr>window_room := None\<rparr>))))"

definition on_disconnected_plain :: "error option \<Rightarrow> state \<Rightarrow> result" where
  "on_disconnected_plain err s =
     bind (teardown_plain s)
       (\<lambda>s1. Normal (case err of Some e \<Rightarrow> reject e s1 | None \<Rightarrow> resolve s1))"

definition executor_plain :: "state \<Rightarrow> state" where
  "executor_plain s =
     (let s1 = s\<lparr>onbeforeunload := Some DisconnectRoom\<rparr>;
          s2 = (if call (isMobile s1)
                then s1\<lparr>onpagehide := Some DisconnectRoom,
                        onvisibilitychange := Some VisibilityChange\<rparr>
                else s1)
      in s2\<lparr>listeners := listeners s2 @ [OnceDisconnected_plain]\<rparr>)"

definition createChat_body_plain :: "room \<Rightarrow> state \<Rightarrow> result" where
  "createChat_body_plain r s =
     (let s1 = s\<lparr>loading := False, room := Some r\<rparr>
      in case videoTracks (localParticipant r) of
           [] \<Rightarrow> Throw TypeError s1
         | pub # rest \<Rightarrow>
            bind (forEach (\<lambda>p. participantConnected_plain p r) (participants r)
                   (s1\<lparr>localVideoTrack := track pub\<rparr>))
            (\<lambda>s3. Normal
               (executor_plain (s3\<lparr>listeners := listeners s3 @
                  [OnParticipantConnected_plain, OnParticipantDisconnected_plain]\<rparr>))))"

definition createChat_plain :: "error + room \<Rightarrow> state \<Rightarrow> state" where
  "createChat_plain connected s =
     (case connected of
        Inl e \<Rightarrow> reject e s
      | Inr r \<Rightarrow>
          (case createChat_body_plain r s of
             Normal s1 \<Rightarrow> s1
           | Throw e s1 \<Rightarrow> reject e s1))"


section \<open>Events\<close>

text \<open>
  What the SDK emits: \<open>trackPublished\<close> on a participant, \<open>subscribed\<close> and
  \<open>unsubscribed\<close> on a publication (each with the reference of the emitting object),
  and the three Room events.
\<close>

datatype sdk_event =
    Ev_trackPublished nat publication
  | Ev_subscribed nat nat
  | Ev_unsubscribed nat nat
  | Ev_participantConnected participant
  | Ev_participantDisconnected participant
  | Ev_disconnected "error option"

text \<open>
  The call a registered listener makes for an event, if it listens for it. A listener
  registered with \<open>once\<close> is removed before it runs.
\<close>

fun react :: "listener \<Rightarrow> sdk_event \<Rightarrow> (state \<Rightarrow> result) option" where
  "react (OnTrackPublished r p) (Ev_trackPublished r' pub) =
     (if r = r' then Some (trackPublished pub p) else None)"
| "react (OnSubscribed r p) (Ev_subscribed r' t) =
     (if r = r' then Some (attachTrack t p) else None)"
| "react (OnUnsubscribed r p) (Ev_unsubscribed r' t) =
     (if r = r' then Some (detachTrack t p) else None)"
| "react OnParticipantConnected (Ev_participantConnected p) =
     Some (\<lambda>s. case room s of
                 None \<Rightarrow> Throw TypeError s
               | Some r \<Rightarrow> participantConnected p r ''participant'' s)"
| "react OnParticipantDisconnected (Ev_participantDisconnected p) =
     Some (participantDisconnected p)"
| "react OnceDisconnected (Ev_disconnected err) =
     Some (\<lambda>s. on_disconnected err (s\<lparr>listeners := remove1 OnceDisconnected (listeners s)\<rparr>))"
| "react OnParticipantConnected_plain (Ev_participantConnected p) =
     Some (\<lambda>s. case room s of
                 None \<Rightarrow> Throw TypeError s
               | Some r \<Rightarrow> participantConnected_plain p r s)"
| "react OnParticipantDisconnected_plain (Ev_participantDisconnected p) =
     Some (participantDisconnected_plain p)"
| "react OnceDisconnected_plain (Ev_disconnected err) =
     Some (\<lambda>s. on_disconnected_plain err
                 (s\<lparr>listeners := remove1 OnceDisconnected_plain (listeners s)\<rparr>))"
| "react l ev = None"

text \<open>An emitter calls the listeners registered at the time of the event, in order.\<close>

definition emit :: "sdk_event \<Rightarrow> state \<Rightarrow> result" where
  "emit ev s = forEach (\<lambda>h. h) (List.map_filter (\<lambda>l. react l ev) (listeners s)) s"

subsection \<open>The SDK's side\<close>

text \<open>
  The SDK is not part of the sources; what follows is its documented behaviour, as far
  as the view depends on it. Before the Room emits \<open>participantConnected\<close> it has put
  the participant into \<open>room.participants\<close> (a \<open>Map\<close>: a known SID keeps its place),
  before \<open>participantDisconnected\<close> it has deleted the participant from the map, and
  before \<open>disconnected\<close> the Room's state has become disconnected, its participants
  staying in the map. Track events leave the Room as it is.
\<close>

definition map_set :: "participant \<Rightarrow> participant list \<Rightarrow> participant list" where
  "map_set p ps =
     (if sid p \<in> set (map sid ps) then map (\<lambda>q. if sid q = sid p then p else q) ps
      else ps @ [p])"

fun sdk_update :: "sdk_event \<Rightarrow> room \<Rightarrow> room" where
  "sdk_update (Ev_participantConnected p) r = r\<lparr>participants := map_set p (participants r)\<rparr>"
| "sdk_update (Ev_participantDisconnected p) r =
     r\<lparr>participants := filter (\<lambda>q. sid q \<noteq> sid p) (participants r)\<rparr>"
| "sdk_update (Ev_disconnected err) r = r\<lparr>roomState := RoomDisconnected\<rparr>"
| "sdk_update ev r = r"

definition sdk_room :: "sdk_event \<Rightarrow> state \<Rightarrow> state" where
  "sdk_room ev s =
     (case room s of None \<Rightarrow> s | Some r \<Rightarrow> s\<lparr>room := Some (sdk_update ev r)\<rparr>)"

text \<open>An event of the SDK: the Room is brought up to date, then the listeners run.\<close>

definition deliver :: "sdk_event \<Rightarrow> state \<Rightarrow> result" where
  "deliver ev s = emit ev (sdk_room ev s)"

text \<open>
  \<open>room.disconnect()\<close>: a Room that is not yet disconnected becomes so and emits
  \<open>disconnected\<close>, without an error, before the call returns; so the view's own
  listener runs inside the call, and what it throws leaves the call. On a disconnected
  Room the call does nothing.
\<close>

definition room_disconnect :: "state \<Rightarrow> result" where
  "room_disconnect s =
     (case room s of
        None \<Rightarrow> Throw TypeError s
      | Some r \<Rightarrow>
          (let s1 = s\<lparr>room := Some (r\<lparr>disconnectCalls := Suc (disconnectCalls r)\<rparr>)\<rparr>
           in if roomState r = RoomDisconnected then Normal s1
              else deliver (Ev_disconnected None) s1))"

subsection \<open>The Disconnect button and the window's events\<close>

definition disconnect :: "state \<Rightarrow> result" where
  "disconnect s = room_disconnect (setMessage ''disconnect'' s)"

definition fire_beforeunload :: "state \<Rightarrow> result" where
  "fire_beforeunload s =
     (case onbeforeunload s of None \<Rightarrow> Normal s | Some DisconnectRoom \<Rightarrow> room_disconnect s)"

definition fire_pagehide :: "state \<Rightarrow> result" where
  "fire_pagehide s =
     (case onpagehide s of None \<Rightarrow> Normal s | Some DisconnectRoom \<Rightarrow> room_disconnect s)"

text \<open>
  What reaches the component: the settling of \<open>connect\<close>, the two buttons, the two
  window events and the SDK's events. (The \<open>visibilitychange\<close> event of a mobile
  browser is not among them: its handler only calls the SDK, whose answers arrive as
  SDK events.)
\<close>

datatype event =
    Connect_settled "error + room"
  | Click_toggleMute
  | Click_disconnect
  | Window_beforeunload
  | Window_pagehide
  | Sdk sdk_event

fun handle :: "event \<Rightarrow> state \<Rightarrow> state" where
  "handle (Connect_settled c) s = createChat c s"
| "handle Click_toggleMute s = state_of (toggleMute s)"
| "handle Click_disconnect s = state_of (disconnect s)"
| "handle Window_beforeunload s = state_of (fire_beforeunload s)"
| "handle Window_pagehide s = state_of (fire_pagehide s)"
| "handle (Sdk ev) s = state_of (deliver ev s)"

definition run :: "event list \<Rightarrow> state \<Rightarrow> state" where
  "run evs s = fold handle evs s"

text \<open>
  The component when \<open>created()\<close> has called \<open>createChat\<close> and \<open>connect\<close> is pending:
  \<open>data()\<close> with the route's query parameters, the template's DOM (the button's label
  without the template's white space), nothing registered. The token and the connect
  options that \<open>created()\<close> passes on are read by the SDK only. The heap of SDK tracks
  and the imported helper are the environment.
\<close>

definition initial :: "string option \<Rightarrow> string option \<Rightarrow> js_function \<Rightarrow> (nat \<Rightarrow> track) \<Rightarrow> state" where
  "initial query_room query_sid mobile heap =
     \<lparr>loading = True, messageState = ''waiting'', room = None,
      roomName = query_room, userToken = query_sid,
      participantsDiv = [], messageDisplay = '''', toggleMuteHTML = ''Mute'',
      onbeforeunload = None, onpagehide = None, onvisibilitychange = None,
      window_room = None,
      localVideoTrack = None, promise = Pending, trackHeap = heap, listeners = [],
      isMobile = mobile\<rparr>"

text \<open>
  The events that touch the handler properties of \<open>window\<close>: the settling of
  \<open>connect\<close>, after which \<open>createChat\<close> installs them, and those that bring the
  \<open>disconnected\<close> listener to run, which clears them: the Room's \<open>disconnected\<close> event
  itself, and the Disconnect button and the two window events, which call
  \<open>room.disconnect()\<close>.
\<close>

fun rewires :: "event \<Rightarrow> bool" where
  "rewires (Connect_settled c) = True"
| "rewires (Sdk (Ev_disconnected err)) = True"
| "rewires Click_disconnect = True"
| "rewires Window_beforeunload = True"
| "rewires Window_pagehide = True"
| "rewires e = False"

section \<open>Observations\<close>

text \<open>The ids of the participant containers under \<open>#participants\<close>, in document order.\<close>

definition container_ids :: "state \<Rightarrow> string list" where
  "container_ids s = map cid (participantsDiv s)"

text \<open>
  The listeners registered on the Room, as opposed to those on participants and
  publications. A session is live from the end of \<open>createChat\<close>'s body to the Room's
  \<open>disconnected\<close> event: the three Room listeners of the view are registered, once each.
\<close>

fun room_listener :: "listener \<Rightarrow> bool" where
  "room_listener (OnTrackPublished n p) = False"
| "room_listener (OnSubscribed n p) = False"
| "room_listener (OnUnsubscribed n p) = False"
| "room_listener l = True"

definition room_listeners :: "state \<Rightarrow> listener list" where
  "room_listeners s = filter room_listener (listeners s)"

definition live :: "state \<Rightarrow> bool" where
  "live s = (room_listeners s =
     [OnParticipantConnected, OnParticipantDisconnected, OnceDisconnected])"

definition live_plain :: "state \<Rightarrow> bool" where
  "live_plain s = (room_listeners s =
     [OnParticipantConnected_plain, OnParticipantDisconnected_plain, OnceDisconnected_plain])"

text \<open>
  A session in progress, as the SDK and the view keep it between the end of
  \<open>createChat\<close>'s body and the end of the session: the Room is connected, the view's
  Room listeners are registered, the unload handler is installed, the local video track
  is there, and the containers are those of the local participant and of the remote
  participants in the Room's map, with SIDs that differ from each other and from the
  id of \<open>#participants\<close>. In the second copy of the view the local participant has no
  container.
\<close>

definition session :: "state \<Rightarrow> bool" where
  "session s =
     (case room s of
        None \<Rightarrow> False
      | Some r \<Rightarrow>
          live s \<and> roomState r = RoomConnected \<and>
          container_ids s = sid (localParticipant r) # map sid (participants r) \<and>
          distinct (sid (localParticipant r) # map sid (participants r)) \<and>
          ''participants'' \<notin> set (sid (localParticipant r) # map sid (participants r)) \<and>
          localVideoTrack s \<noteq> None \<and> onbeforeunload s = Some DisconnectRoom)"

definition session_plain :: "state \<Rightarrow> bool" where
  "session_plain s =
     (case room s of
        None \<Rightarrow> False
      | Some r \<Rightarrow>
          live_plain s \<and> roomState r = RoomConnected \<and>
          container_ids s = map sid (participants r) \<and>
          distinct (sid (localParticipant r) # map sid (participants r)) \<and>
          ''participants'' \<notin> set (sid (localParticipant r) # map sid (participants r)) \<and>
          localVideoTrack s \<noteq> None \<and> onbeforeunload s = Some DisconnectRoom)"



section \<open>A sample session\<close>

text \<open>
  A desktop browser joins a room in which one remote participant is already present.
  The local participant publishes an audio and a video track; the remote participant's
  audio publication is not subscribed yet.
\<close>

definition example_heap :: "nat \<Rightarrow> track" where
  "example_heap t =
     \<lparr>kind = (if t = 2 then Video else Audio), isEnabled = True, isStopped = False\<rparr>"

definition example_local :: participant where
  "example_local =
     \<lparr>ref = 0, identity = ''alice'', sid = ''PA01'',
      tracks = [\<lparr>pub_ref = 10, track = Some 1\<rparr>, \<lparr>pub_ref = 11, track = Some 2\<rparr>],
      audioTracks = [\<lparr>pub_ref = 10, track = Some 1\<rparr>],
      videoTracks = [\<lparr>pub_ref = 11, track = Some 2\<rparr>]\<rparr>"

definition example_remote :: participant where
  "example_remote =
     \<lparr>ref = 1, identity = ''bob'', sid = ''PA02'',
      tracks = [\<lparr>pub_ref = 12, track = None\<rparr>],
      audioTracks = [\<lparr>pub_ref = 12, track = None\<rparr>],
      videoTracks = []\<rparr>"

definition example_room :: room where
  "example_room =
     \<lparr>localParticipant = example_local, participants = [example_remote], roomState = RoomConnected,
      disconnectCalls = 0\<rparr>"

text \<open>The same room when the local participant has published no video track.\<close>

definition example_room_no_video :: room where
  "example_room_no_video =
     \<lparr>localParticipant = example_local
        \<lparr>tracks := [\<lparr>pub_ref = 10, track = Some 1\<rparr>], videoTracks := []\<rparr>,
      participants = [example_remote], roomState = RoomConnected,
      disconnectCalls = 0\<rparr>"

definition example_initial :: state where
  "example_initial = initial (Some ''room'') (Some ''token'') (Fn False) example_heap"

definition example_state :: state where
  "example_state = createChat (Inr example_room) example_initial"

text \<open>The same session on a mobile browser.\<close>

definition example_mobile_initial :: state where
  "example_mobile_initial = initial (Some ''room'') (Some ''token'') (Fn True) example_heap"

definition example_mobile_state :: state where
  "example_mobile_state = createChat (Inr example_room) example_mobile_initial"

text \<open>A participant who joins later, and the session in the second copy of the view.\<close>

definition example_guest :: participant where
  "example_guest =
     \<lparr>ref = 2, identity = ''carol'', sid = ''PA03'', tracks = [], audioTracks = [],
      videoTracks = []\<rparr>"

definition example_plain_state :: state where
  "example_plain_state = createChat_plain (Inr example_room) example_initial"

section \<open>Sequencing and frames\<close>

lemma state_of_bind:
  "state_of (bind m f) = (case m of Normal s \<Rightarrow> state_of (f s) | Throw e s \<Rightarrow> s)"
  by (cases m) simp_all

lemma bind_keeps:
  assumes "g (state_of m) = c" and "\<And>s. g (state_of (f s)) = g s"
  shows "g (state_of (bind m f)) = c"
  using assms by (cases m) simp_all

lemma forEach_keeps:
  assumes "\<And>x s. g (state_of (f x s)) = g s"
  shows "g (state_of (forEach f xs s)) = g s"
proof (induction xs arbitrary: s)
  case Nil
  show ?case by simp
next
  case (Cons x xs)
  show ?case
  proof (cases "f x s")
    case (Normal s1)
    have "g s1 = g s" using assms [of x s] Normal by simp
    with Cons.IH [of s1] Normal show ?thesis by simp
  next
    case (Throw e s1)
    then show ?thesis using assms [of x s] by simp
  qed
qed

lemma forEach_invariant:
  assumes "\<And>x s. P s \<Longrightarrow> P (state_of (f x s))" and "P s"
  shows "P (state_of (forEach f xs s))"
  using assms(2)
proof (induction xs arbitrary: s)
  case Nil
  then show ?case by simp
next
  case (Cons x xs)
  show ?case
  proof (cases "f x s")
    case (Normal s1)
    have "P s1" using assms(1) [OF Cons.prems, of x] Normal by simp
    with Cons.IH [of s1] Normal show ?thesis by simp
  next
    case (Throw e s1)
    then show ?thesis using assms(1) [OF Cons.prems, of x] by simp
  qed
qed

text \<open>
  Frame lemmas: an observation \<open>g\<close> that does not depend on the fields a method
  writes is unchanged by the method, whether it returns or throws.
\<close>

lemma attachTrack_frame:
  assumes "\<And>s cs. g (s\<lparr>participantsDiv := cs\<rparr>) = g s"
  shows "g (state_of (attachTrack t p s)) = g s"
  by (simp add: attachTrack_def assms split: option.splits prod.splits)

lemma detachTrack_frame:
  assumes "\<And>s cs. g (s\<lparr>participantsDiv := cs\<rparr>) = g s"
  shows "g (state_of (detachTrack t p s)) = g s"
  by (simp add: detachTrack_def assms split: option.splits prod.splits)

lemma trackPublished_frame:
  assumes D: "\<And>s cs. g (s\<lparr>participantsDiv := cs\<rparr>) = g s"
    and L: "\<And>s ls. g (s\<lparr>listeners := ls\<rparr>) = g s"
  shows "g (state_of (trackPublished pub p s)) = g s"
  unfolding trackPublished_def
  by (rule bind_keeps) (simp_all add: attachTrack_frame [of g, OF D] L split: option.splits)

lemma setupParticipantContainer_frame:
  assumes D: "\<And>s cs. g (s\<lparr>participantsDiv := cs\<rparr>) = g s"
    and M: "\<And>s m. g (s\<lparr>messageDisplay := m\<rparr>) = g s"
  shows "g (setupParticipantContainer p r cls s) = g s"
  by (simp add: setupParticipantContainer_def Let_def D M)

lemma participantConnected_frame:
  assumes D: "\<And>s cs. g (s\<lparr>participantsDiv := cs\<rparr>) = g s"
    and M: "\<And>s m. g (s\<lparr>messageDisplay := m\<rparr>) = g s"
    and L: "\<And>s ls. g (s\<lparr>listeners := ls\<rparr>) = g s"
  shows "g (state_of (participantConnected p r cls s)) = g s"
  unfolding participantConnected_def
proof (rule bind_keeps)
  show "g (state_of (forEach (\<lambda>pub. trackPublished pub p) (tracks p)
          (setupParticipantContainer p r cls s))) = g s"
    using forEach_keeps [of g "\<lambda>pub. trackPublished pub p", OF trackPublished_frame [of g, OF D L]]
    by (simp add: setupParticipantContainer_frame [of g, OF D M])
qed (simp add: L)

lemma participantDisconnected_frame:
  assumes D: "\<And>s cs. g (s\<lparr>participantsDiv := cs\<rparr>) = g s"
    and M: "\<And>s m. g (s\<lparr>messageDisplay := m\<rparr>) = g s"
    and S: "\<And>s m. g (s\<lparr>messageState := m\<rparr>) = g s"
  shows "g (state_of (participantDisconnected p s)) = g s"
  by (simp add: participantDisconnected_def setMessage_def D M S split: option.splits node.splits)

lemma toggleMute_each_frame:
  assumes B: "\<And>s b. g (s\<lparr>toggleMuteHTML := b\<rparr>) = g s"
    and H: "\<And>s h. g (s\<lparr>trackHeap := h\<rparr>) = g s"
  shows "g (state_of (toggleMute_each pub s)) = g s"
  by (simp add: toggleMute_each_def B H split: option.splits)

lemma toggleMute_frame:
  assumes B: "\<And>s b. g (s\<lparr>toggleMuteHTML := b\<rparr>) = g s"
    and H: "\<And>s h. g (s\<lparr>trackHeap := h\<rparr>) = g s"
  shows "g (state_of (toggleMute s)) = g s"
  using forEach_keeps [of g toggleMute_each, OF toggleMute_each_frame [of g, OF B H]]
  by (simp add: toggleMute_def split: option.splits)

lemma sdk_room_frame:
  assumes R: "\<And>s r. g (s\<lparr>room := r\<rparr>) = g s"
  shows "g (sdk_room ev s) = g s"
  by (simp add: sdk_room_def R split: option.splits)

lemma teardown_unfold:
  assumes "localVideoTrack s = Some t" and "room s = Some r"
  shows "teardown s =
     bind (participantDisconnected (localParticipant r)
            (s\<lparr>onbeforeunload := None, onpagehide := None, onvisibilitychange := None,
               trackHeap := (trackHeap s)(t := (trackHeap s t)\<lparr>isStopped := True\<rparr>)\<rparr>))
       (forEach participantDisconnected (participants r))"
  using assms by (cases "isMobile s") (simp add: teardown_def Let_def)

lemma teardown_frame:
  assumes D: "\<And>s cs. g (s\<lparr>participantsDiv := cs\<rparr>) = g s"
    and M: "\<And>s m. g (s\<lparr>messageDisplay := m\<rparr>) = g s"
    and S: "\<And>s m. g (s\<lparr>messageState := m\<rparr>) = g s"
    and H: "\<And>s h. g (s\<lparr>trackHeap := h\<rparr>) = g s"
  shows "g (state_of (teardown s)) =
         g (s\<lparr>onbeforeunload := None, onpagehide := None, onvisibilitychange := None\<rparr>)"
proof (cases "localVideoTrack s")
  case None
  then show ?thesis by (cases "isMobile s") (simp add: teardown_def Let_def)
next
  case (Some t)
  show ?thesis
  proof (cases "room s")
    case None
    with Some show ?thesis by (cases "isMobile s") (simp add: teardown_def Let_def H)
  next
    case (Some r)
    let ?s3 = "s\<lparr>onbeforeunload := None, onpagehide := None, onvisibilitychange := None,
               trackHeap := (trackHeap s)(t := (trackHeap s t)\<lparr>isStopped := True\<rparr>)\<rparr>"
    have pd: "\<And>p s. g (state_of (participantDisconnected p s)) = g s"
      by (rule participantDisconnected_frame [of g, OF D M S])
    have "g (state_of (bind (participantDisconnected (localParticipant r) ?s3)
            (forEach participantDisconnected (participants r)))) = g ?s3"
      by (rule bind_keeps) (simp_all add: pd forEach_keeps [of g participantDisconnected, OF pd])
    then show ?thesis
      using teardown_unfold [OF \<open>localVideoTrack s = Some t\<close> Some] by (simp add: H)
  qed
qed

lemma teardown_plain_unfold:
  assumes "localVideoTrack s = Some t" and "room s = Some r"
  shows "teardown_plain s =
     bind (forEach participantDisconnected_plain (participants r)
            (s\<lparr>onbeforeunload := None, onpagehide := None, onvisibilitychange := None,
               trackHeap := (trackHeap s)(t := (trackHeap s t)\<lparr>isStopped := True\<rparr>)\<rparr>))
       (\<lambda>s4. Normal (s4\<lparr>window_room := None\<rparr>))"
  using assms by (cases "isMobile s") (simp add: teardown_plain_def Let_def)

lemma participantDisconnected_plain_frame:
  assumes D: "\<And>s cs. g (s\<lparr>participantsDiv := cs\<rparr>) = g s"
  shows "g (state_of (participantDisconnected_plain p s)) = g s"
  by (simp add: participantDisconnected_plain_def D split: option.splits node.splits)

lemma teardown_plain_frame:
  assumes D: "\<And>s cs. g (s\<lparr>participantsDiv := cs\<rparr>) = g s"
    and W: "\<And>s w. g (s\<lparr>window_room := w\<rparr>) = g s"
    and H: "\<And>s h. g (s\<lparr>trackHeap := h\<rparr>) = g s"
  shows "g (state_of (teardown_plain s)) =
         g (s\<lparr>onbeforeunload := None, onpagehide := None, onvisibilitychange := None\<rparr>)"
proof (cases "localVideoTrack s")
  case None
  then show ?thesis by (cases "isMobile s") (simp add: teardown_plain_def Let_def)
next
  case (Some t)
  show ?thesis
  proof (cases "room s")
    case None
    with Some show ?thesis by (cases "isMobile s") (simp add: teardown_plain_def Let_def H)
  next
    case (Some r)
    let ?s3 = "s\<lparr>onbeforeunload := None, onpagehide := None, onvisibilitychange := None,
               trackHeap := (trackHeap s)(t := (trackHeap s t)\<lparr>isStopped := True\<rparr>)\<rparr>"
    have pd: "\<And>p s. g (state_of (participantDisconnected_plain p s)) = g s"
      by (rule participantDisconnected_plain_frame [of g, OF D])
    have "g (state_of (bind (forEach participantDisconnected_plain (participants r) ?s3)
            (\<lambda>s4. Normal (s4\<lparr>window_room := None\<rparr>)))) = g ?s3"
      by (rule bind_keeps)
        (simp_all add: W forEach_keeps [of g participantDisconnected_plain, OF pd])
    then show ?thesis
      using teardown_plain_unfold [OF \<open>localVideoTrack s = Some t\<close> Some] by (simp add: H)
  qed
qed

lemma settle_frame:
  assumes P: "\<And>s p. g (s\<lparr>promise := p\<rparr>) = g s"
  shows "g (case err of Some e \<Rightarrow> reject e s | None \<Rightarrow> resolve s) = g s"
  by (simp add: reject_def resolve_def P split: option.splits)

lemma on_disconnected_frame:
  assumes D: "\<And>s cs. g (s\<lparr>participantsDiv := cs\<rparr>) = g s"
    and M: "\<And>s m. g (s\<lparr>messageDisplay := m\<rparr>) = g s"
    and S: "\<And>s m. g (s\<lparr>messageState := m\<rparr>) = g s"
    and H: "\<And>s h. g (s\<lparr>trackHeap := h\<rparr>) = g s"
    and P: "\<And>s p. g (s\<lparr>promise := p\<rparr>) = g s"
  shows "g (state_of (on_disconnected err s)) =
         g (s\<lparr>onbeforeunload := None, onpagehide := None, onvisibilitychange := None\<rparr>)"
  unfolding on_disconnected_def
  by (rule bind_keeps) (simp_all add: teardown_frame [of g, OF D M S H] settle_frame [of g, OF P])

lemma on_disconnected_plain_frame:
  assumes D: "\<And>s cs. g (s\<lparr>participantsDiv := cs\<rparr>) = g s"
    and W: "\<And>s w. g (s\<lparr>window_room := w\<rparr>) = g s"
    and H: "\<And>s h. g (s\<lparr>trackHeap := h\<rparr>) = g s"
    and P: "\<And>s p. g (s\<lparr>promise := p\<rparr>) = g s"
  shows "g (state_of (on_disconnected_plain err s)) =
         g (s\<lparr>onbeforeunload := None, onpagehide := None, onvisibilitychange := None\<rparr>)"
  unfolding on_disconnected_plain_def
  by (rule bind_keeps)
    (simp_all add: teardown_plain_frame [of g, OF D W H] settle_frame [of g, OF P])

lemma on_disconnected_handlers:
  "onbeforeunload (state_of (on_disconnected err s)) = None"
  "onpagehide (state_of (on_disconnected err s)) = None"
  "onvisibilitychange (state_of (on_disconnected err s)) = None"
  by (simp_all add: on_disconnected_frame)

lemma on_disconnected_plain_handlers:
  "onbeforeunload (state_of (on_disconnected_plain err s)) = None"
  "onpagehide (state_of (on_disconnected_plain err s)) = None"
  "onvisibilitychange (state_of (on_disconnected_plain err s)) = None"
  by (simp_all add: on_disconnected_plain_frame)

lemma forEach_establish:
  assumes "\<And>h s. h \<in> set hs \<Longrightarrow> Q (state_of (h s))" and "hs \<noteq> []"
  shows "Q (state_of (forEach (\<lambda>h. h) hs s))"
  using assms
proof (induction hs arbitrary: s)
  case Nil
  then show ?case by simp
next
  case (Cons h hs)
  have here: "Q (state_of (h s))" by (rule Cons.prems(1)) simp
  show ?case
  proof (cases "h s")
    case (Throw e s1)
    with here show ?thesis by simp
  next
    case (Normal s1)
    show ?thesis
    proof (cases "hs = []")
      case True
      with Normal here show ?thesis by simp
    next
      case False
      have "Q (state_of (forEach (\<lambda>h. h) hs s1))"
        by (rule Cons.IH) (simp_all add: Cons.prems(1) False)
      with Normal show ?thesis by simp
    qed
  qed
qed

lemma in_set_map_filter:
  "y \<in> set (List.map_filter f xs) \<longleftrightarrow> (\<exists>x \<in> set xs. f x = Some y)"
  by (induction xs) (auto split: option.splits)

lemma react_disconnected:
  assumes "react l (Ev_disconnected err) = Some h"
  shows "h = (\<lambda>s. on_disconnected err (s\<lparr>listeners := remove1 OnceDisconnected (listeners s)\<rparr>)) \<or>
         h = (\<lambda>s. on_disconnected_plain err
                    (s\<lparr>listeners := remove1 OnceDisconnected_plain (listeners s)\<rparr>))"
  using assms by (cases l) auto

lemma emit_disconnected_handlers:
  assumes "OnceDisconnected \<in> set (listeners s) \<or> OnceDisconnected_plain \<in> set (listeners s)"
  shows "onbeforeunload (state_of (emit (Ev_disconnected err) s)) = None \<and>
         onpagehide (state_of (emit (Ev_disconnected err) s)) = None \<and>
         onvisibilitychange (state_of (emit (Ev_disconnected err) s)) = None"
  unfolding emit_def
proof (rule forEach_establish)
  fix h s'
  assume "h \<in> set (List.map_filter (\<lambda>l. react l (Ev_disconnected err)) (listeners s))"
  then obtain l where "react l (Ev_disconnected err) = Some h"
    by (auto simp: in_set_map_filter)
  from react_disconnected [OF this]
  show "onbeforeunload (state_of (h s')) = None \<and> onpagehide (state_of (h s')) = None \<and>
        onvisibilitychange (state_of (h s')) = None"
    by (auto simp: on_disconnected_handlers on_disconnected_plain_handlers)
next
  from assms obtain l h where "l \<in> set (listeners s)" "react l (Ev_disconnected err) = Some h"
    by auto
  then have "h \<in> set (List.map_filter (\<lambda>l. react l (Ev_disconnected err)) (listeners s))"
    by (auto simp: in_set_map_filter)
  then show "List.map_filter (\<lambda>l. react l (Ev_disconnected err)) (listeners s) \<noteq> []"
    by auto
qed

lemma createChat_body_unfold:
  assumes "videoTracks (localParticipant r) = pub # rest"
  shows "createChat_body r s =
     bind (participantConnected (localParticipant r) r ''local''
            (s\<lparr>loading := False, room := Some r, localVideoTrack := track pub\<rparr>))
    (\<lambda>s2. bind (forEach (\<lambda>p. participantConnected p r ''participant'') (participants r) s2)
    (\<lambda>s3. Normal
       (executor (s3\<lparr>listeners := listeners s3 @
                  [OnParticipantConnected, OnParticipantDisconnected]\<rparr>))))"
  using assms by (simp add: createChat_body_def Let_def)

lemma createChat_body_plain_unfold:
  assumes "videoTracks (localParticipant r) = pub # rest"
  shows "createChat_body_plain r s =
     bind (forEach (\<lambda>p. participantConnected_plain p r) (participants r)
            (s\<lparr>loading := False, room := Some r, localVideoTrack := track pub\<rparr>))
    (\<lambda>s3. Normal
       (executor_plain (s3\<lparr>listeners := listeners s3 @
                  [OnParticipantConnected_plain, OnParticipantDisconnected_plain]\<rparr>)))"
  using assms by (simp add: createChat_body_plain_def Let_def)

lemma participantConnected_plain_frame:
  assumes D: "\<And>s cs. g (s\<lparr>participantsDiv := cs\<rparr>) = g s"
    and L: "\<And>s ls. g (s\<lparr>listeners := ls\<rparr>) = g s"
  shows "g (state_of (participantConnected_plain p r s)) = g s"
  unfolding participantConnected_plain_def
proof (rule bind_keeps)
  show "g (state_of (forEach (\<lambda>pub. trackPublished pub p) (tracks p)
          (setupParticipantContainer_plain p r s))) = g s"
    using forEach_keeps [of g "\<lambda>pub. trackPublished pub p", OF trackPublished_frame [of g, OF D L]]
    by (simp add: setupParticipantContainer_plain_def Let_def D)
qed (simp add: L)

text \<open>
  What \<open>createChat\<close> leaves alone once the video track has been read: an observation
  independent of the containers, the message style, the listeners and the three
  handler properties.
\<close>

lemma createChat_body_frame:
  assumes V: "videoTracks (localParticipant r) = pub # rest"
    and D: "\<And>s cs. g (s\<lparr>participantsDiv := cs\<rparr>) = g s"
    and M: "\<And>s m. g (s\<lparr>messageDisplay := m\<rparr>) = g s"
    and L: "\<And>s ls. g (s\<lparr>listeners := ls\<rparr>) = g s"
    and B: "\<And>s h. g (s\<lparr>onbeforeunload := h\<rparr>) = g s"
    and P: "\<And>s h. g (s\<lparr>onpagehide := h\<rparr>) = g s"
    and C: "\<And>s h. g (s\<lparr>onvisibilitychange := h\<rparr>) = g s"
  shows "g (state_of (createChat_body r s)) =
         g (s\<lparr>loading := False, room := Some r, localVideoTrack := track pub\<rparr>)"
  unfolding createChat_body_unfold [OF V]
proof (rule bind_keeps)
  show "g (state_of (participantConnected (localParticipant r) r ''local''
          (s\<lparr>loading := False, room := Some r, localVideoTrack := track pub\<rparr>))) =
        g (s\<lparr>loading := False, room := Some r, localVideoTrack := track pub\<rparr>)"
    by (rule participantConnected_frame [of g, OF D M L])
next
  fix s2
  show "g (state_of (bind (forEach (\<lambda>p. participantConnected p r ''participant'') (participants r) s2)
    (\<lambda>s3. Normal
       (executor (s3\<lparr>listeners := listeners s3 @
                  [OnParticipantConnected, OnParticipantDisconnected]\<rparr>))))) = g s2"
  proof (rule bind_keeps)
    show "g (state_of (forEach (\<lambda>p. participantConnected p r ''participant'') (participants r) s2)) = g s2"
      by (rule forEach_keeps) (rule participantConnected_frame [of g, OF D M L])
  qed (simp add: executor_def executor_plain_def Let_def L B P C)
qed

lemma createChat_body_plain_frame:
  assumes V: "videoTracks (localParticipant r) = pub # rest"
    and D: "\<And>s cs. g (s\<lparr>participantsDiv := cs\<rparr>) = g s"
    and L: "\<And>s ls. g (s\<lparr>listeners := ls\<rparr>) = g s"
    and B: "\<And>s h. g (s\<lparr>onbeforeunload := h\<rparr>) = g s"
    and P: "\<And>s h. g (s\<lparr>onpagehide := h\<rparr>) = g s"
    and C: "\<And>s h. g (s\<lparr>onvisibilitychange := h\<rparr>) = g s"
  shows "g (state_of (createChat_body_plain r s)) =
         g (s\<lparr>loading := False, room := Some r, localVideoTrack := track pub\<rparr>)"
  unfolding createChat_body_plain_unfold [OF V]
proof (rule bind_keeps)
  show "g (state_of (forEach (\<lambda>p. participantConnected_plain p r) (participants r)
          (s\<lparr>loading := False, room := Some r, localVideoTrack := track pub\<rparr>))) =
        g (s\<lparr>loading := False, room := Some r, localVideoTrack := track pub\<rparr>)"
    by (rule forEach_keeps) (rule participantConnected_plain_frame [of g, OF D L])
qed (simp add: executor_def executor_plain_def Let_def L B P C)

section \<open>Listeners and events\<close>

lemma bind_invariant:
  assumes "P (state_of m)" and "\<And>s. P s \<Longrightarrow> P (state_of (f s))"
  shows "P (state_of (bind m f))"
  using assms by (cases m) simp_all

lemma bind_Normal:
  assumes "bind m f = Normal s"
  obtains s1 where "m = Normal s1" and "f s1 = Normal s"
  using assms by (cases m) simp_all

lemma forEach_handlers_invariant:
  assumes "\<And>h s. h \<in> set hs \<Longrightarrow> P s \<Longrightarrow> P (state_of (h s))" and "P s"
  shows "P (state_of (forEach (\<lambda>h. h) hs s))"
  using assms
proof (induction hs arbitrary: s)
  case Nil
  then show ?case by simp
next
  case (Cons h hs)
  have here: "P (state_of (h s))" by (rule Cons.prems(1)) (simp_all add: Cons.prems(2))
  show ?case
  proof (cases "h s")
    case (Throw e s1)
    with here show ?thesis by simp
  next
    case (Normal s1)
    have "P (state_of (forEach (\<lambda>h. h) hs s1))"
      using here Normal by (intro Cons.IH) (simp_all add: Cons.prems(1))
    with Normal show ?thesis by simp
  qed
qed

text \<open>The arrow functions behind the listeners, event by event.\<close>

lemma react_cases:
  assumes "react l ev = Some h"
  shows
    "(\<exists>n pub p. ev = Ev_trackPublished n pub \<and> h = trackPublished pub p) \<or>
     (\<exists>n t p. ev = Ev_subscribed n t \<and> h = attachTrack t p) \<or>
     (\<exists>n t p. ev = Ev_unsubscribed n t \<and> h = detachTrack t p) \<or>
     (\<exists>p. ev = Ev_participantConnected p \<and>
        (h = (\<lambda>s. case room s of None \<Rightarrow> Throw TypeError s
                   | Some r \<Rightarrow> participantConnected p r ''participant'' s) \<or>
         h = (\<lambda>s. case room s of None \<Rightarrow> Throw TypeError s
                   | Some r \<Rightarrow> participantConnected_plain p r s))) \<or>
     (\<exists>p. ev = Ev_participantDisconnected p \<and>
        (h = participantDisconnected p \<or> h = participantDisconnected_plain p)) \<or>
     (\<exists>err. ev = Ev_disconnected err \<and>
        (h = (\<lambda>s. on_disconnected err
                   (s\<lparr>listeners := remove1 OnceDisconnected (listeners s)\<rparr>)) \<or>
         h = (\<lambda>s. on_disconnected_plain err
                   (s\<lparr>listeners := remove1 OnceDisconnected_plain (listeners s)\<rparr>))))"
  using assms by (cases l; cases ev) (auto split: if_splits)

lemma emit_invariant:
  assumes "\<And>l h s. react l ev = Some h \<Longrightarrow> P s \<Longrightarrow> P (state_of (h s))" and "P s"
  shows "P (state_of (emit ev s))"
  unfolding emit_def
proof (rule forEach_handlers_invariant)
  fix h s'
  assume "h \<in> set (List.map_filter (\<lambda>l. react l ev) (listeners s))" and "P s'"
  then show "P (state_of (h s'))"
    using assms(1) by (auto simp: in_set_map_filter)
qed (rule assms(2))

lemma deliver_invariant:
  assumes "\<And>l h s. react l ev = Some h \<Longrightarrow> P s \<Longrightarrow> P (state_of (h s))"
    and "P (sdk_room ev s)"
  shows "P (state_of (deliver ev s))"
  unfolding deliver_def using assms by (rule emit_invariant)

lemma room_disconnect_invariant:
  assumes react: "\<And>l h s. react l (Ev_disconnected None) = Some h \<Longrightarrow> P s \<Longrightarrow> P (state_of (h s))"
    and R: "\<And>s r. P s \<Longrightarrow> P (s\<lparr>room := r\<rparr>)"
    and s: "P s"
  shows "P (state_of (room_disconnect s))"
proof (cases "room s")
  case None
  with s show ?thesis by (simp add: room_disconnect_def)
next
  case (Some r)
  let ?s1 = "s\<lparr>room := Some (r\<lparr>disconnectCalls := Suc (disconnectCalls r)\<rparr>)\<rparr>"
  have 1: "P ?s1" by (rule R [OF s])
  show ?thesis
  proof (cases "roomState r = RoomDisconnected")
    case True
    with Some 1 show ?thesis by (simp add: room_disconnect_def)
  next
    case False
    have "P (sdk_room (Ev_disconnected None) ?s1)"
      using R [OF 1] by (simp add: sdk_room_def)
    then have "P (state_of (deliver (Ev_disconnected None) ?s1))"
      by (rule deliver_invariant [where P = P, rotated]) (rule react)
    with Some False show ?thesis by (simp add: room_disconnect_def)
  qed
qed

text \<open>The status message only ever moves to \<open>disconnect\<close>.\<close>

lemma messageState_react:
  assumes "react l ev = Some h"
    and "messageState s = m \<or> messageState s = ''disconnect''"
  shows "messageState (state_of (h s)) = m \<or> messageState (state_of (h s)) = ''disconnect''"
proof -
  let ?P = "\<lambda>s::state. messageState s = m \<or> messageState s = ''disconnect''"
  have pd: "\<And>p s. ?P s \<Longrightarrow> ?P (state_of (participantDisconnected p s))"
    by (auto simp: participantDisconnected_def setMessage_def split: option.splits node.splits)
  have td: "\<And>s. ?P s \<Longrightarrow> ?P (state_of (teardown s))"
  proof -
    fix s :: state
    assume a: "?P s"
    show "?P (state_of (teardown s))"
    proof (cases "localVideoTrack s")
      case None
      with a show ?thesis by (cases "isMobile s") (simp add: teardown_def Let_def)
    next
      case (Some t)
      show ?thesis
      proof (cases "room s")
        case None
        with Some a show ?thesis by (cases "isMobile s") (simp add: teardown_def Let_def)
      next
        case (Some r)
        show ?thesis
          unfolding teardown_unfold [OF \<open>localVideoTrack s = Some t\<close> Some]
          by (rule bind_invariant, rule pd, simp add: a)
            (rule forEach_invariant [of ?P participantDisconnected, OF pd])
      qed
    qed
  qed
  have od: "\<And>err s. ?P s \<Longrightarrow> ?P (state_of (on_disconnected err s))"
    unfolding on_disconnected_def
    by (rule bind_invariant, rule td, assumption)
      (simp add: reject_def resolve_def split: option.splits)
  have odp: "\<And>err s. messageState (state_of (on_disconnected_plain err s)) = messageState s"
    by (simp add: on_disconnected_plain_frame)
  from react_cases [OF assms(1)] show ?thesis
  proof (elim disjE exE conjE)
    fix n pub p assume "ev = Ev_trackPublished n pub" "h = trackPublished pub p"
    then show ?thesis using assms(2) by (simp add: trackPublished_frame)
  next
    fix n t p assume "ev = Ev_subscribed n t" "h = attachTrack t p"
    then show ?thesis using assms(2) by (simp add: attachTrack_frame)
  next
    fix n t p assume "ev = Ev_unsubscribed n t" "h = detachTrack t p"
    then show ?thesis using assms(2) by (simp add: detachTrack_frame)
  next
    fix p assume "h = (\<lambda>s. case room s of None \<Rightarrow> Throw TypeError s
                   | Some r \<Rightarrow> participantConnected p r ''participant'' s)"
    then show ?thesis using assms(2)
      by (simp add: participantConnected_frame split: option.splits)
  next
    fix p assume "h = (\<lambda>s. case room s of None \<Rightarrow> Throw TypeError s
                   | Some r \<Rightarrow> participantConnected_plain p r s)"
    then show ?thesis using assms(2)
      by (simp add: participantConnected_plain_frame split: option.splits)
  next
    fix p assume "h = participantDisconnected p"
    then show ?thesis using pd [OF assms(2)] by simp
  next
    fix p assume "h = participantDisconnected_plain p"
    then show ?thesis using assms(2) by (simp add: participantDisconnected_plain_frame)
  next
    fix err assume "h = (\<lambda>s. on_disconnected err
                   (s\<lparr>listeners := remove1 OnceDisconnected (listeners s)\<rparr>))"
    then show ?thesis
      using od [of "s\<lparr>listeners := remove1 OnceDisconnected (listeners s)\<rparr>" err] assms(2)
      by simp
  next
    fix err assume "h = (\<lambda>s. on_disconnected_plain err
                   (s\<lparr>listeners := remove1 OnceDisconnected_plain (listeners s)\<rparr>))"
    then show ?thesis using assms(2) by (simp add: odp)
  qed
qed

lemma createChat_frame:
  assumes D: "\<And>s cs. g (s\<lparr>participantsDiv := cs\<rparr>) = g s"
    and M: "\<And>s m. g (s\<lparr>messageDisplay := m\<rparr>) = g s"
    and L: "\<And>s ls. g (s\<lparr>listeners := ls\<rparr>) = g s"
    and B: "\<And>s h. g (s\<lparr>onbeforeunload := h\<rparr>) = g s"
    and P: "\<And>s h. g (s\<lparr>onpagehide := h\<rparr>) = g s"
    and C: "\<And>s h. g (s\<lparr>onvisibilitychange := h\<rparr>) = g s"
    and O: "\<And>s b. g (s\<lparr>loading := b\<rparr>) = g s"
    and R: "\<And>s r. g (s\<lparr>room := r\<rparr>) = g s"
    and V: "\<And>s t. g (s\<lparr>localVideoTrack := t\<rparr>) = g s"
    and S: "\<And>s p. g (s\<lparr>promise := p\<rparr>) = g s"
  shows "g (createChat c s) = g s"
proof (cases c)
  case (Inl e)
  then show ?thesis by (simp add: createChat_def reject_def S)
next
  case (Inr r)
  have body: "g (state_of (createChat_body r s)) = g s"
  proof (cases "videoTracks (localParticipant r)")
    case Nil
    then show ?thesis by (simp add: createChat_body_def Let_def O R)
  next
    case (Cons pub rest)
    show ?thesis
      using createChat_body_frame [of r pub rest g s, OF Cons D M L B P C]
      by (simp add: O R V)
  qed
  show ?thesis
  proof (cases "createChat_body r s")
    case (Normal s1)
    with body Inr show ?thesis by (simp add: createChat_def)
  next
    case (Throw e s1)
    with body Inr show ?thesis by (simp add: createChat_def reject_def S)
  qed
qed

lemma messageState_room_disconnect:
  assumes "messageState s = m \<or> messageState s = ''disconnect''"
  shows "messageState (state_of (room_disconnect s)) = m \<or>
         messageState (state_of (room_disconnect s)) = ''disconnect''"
  by (rule room_disconnect_invariant [where P = "\<lambda>s'::state. messageState s' = m \<or>
        messageState s' = ''disconnect''"])
    (erule messageState_react, simp_all add: assms)

lemma messageState_disconnect:
  "messageState (state_of (disconnect s)) = ''disconnect''"
  using messageState_room_disconnect [of "setMessage ''disconnect'' s" "''disconnect''"]
  by (simp add: disconnect_def setMessage_def)

lemma messageState_handle:
  "messageState (handle e s) = messageState s \<or> messageState (handle e s) = ''disconnect''"
proof (cases e)
  case (Connect_settled c)
  then show ?thesis by (simp add: createChat_frame)
next
  case Click_toggleMute
  then show ?thesis by (simp add: toggleMute_frame)
next
  case Click_disconnect
  then show ?thesis by (simp add: messageState_disconnect)
next
  case Window_beforeunload
  then show ?thesis
    using messageState_room_disconnect [of s "messageState s"]
    by (simp add: fire_beforeunload_def split: option.splits unload_handler.splits)
next
  case Window_pagehide
  then show ?thesis
    using messageState_room_disconnect [of s "messageState s"]
    by (simp add: fire_pagehide_def split: option.splits unload_handler.splits)
next
  case (Sdk ev)
  have "messageState (state_of (deliver ev s)) = messageState s \<or>
        messageState (state_of (deliver ev s)) = ''disconnect''"
    by (rule deliver_invariant [where P = "\<lambda>s'::state. messageState s' = messageState s \<or>
          messageState s' = ''disconnect''"])
      (erule messageState_react, simp_all add: sdk_room_frame)
  with Sdk show ?thesis by simp
qed


section \<open>The route table, the media elements, the handlers and the join\<close>

lemmas example_defs = example_heap_def example_local_def example_remote_def example_room_def
  example_room_no_video_def example_initial_def example_state_def initial_def
  example_mobile_initial_def example_mobile_state_def example_guest_def
  example_plain_state_def

lemmas view_defs = createChat_def createChat_body_def executor_def participantConnected_def
  setupParticipantContainer_def createElement_def trackPublished_def attachTrack_def
  detachTrack_def update_child_def reject_def resolve_def participantDisconnected_def
  querySelector_id_def remove_nth_def setMessage_def teardown_def on_disconnected_def
  emit_def toggleMute_def toggleMute_each_def room_disconnect_def disconnect_def
  deliver_def sdk_room_def map_set_def
  fire_beforeunload_def fire_pagehide_def


text \<open>
  C10. The route table has exactly two entries: path \<open>/\<close>, named \<open>home\<close>, rendering the
  Home component, and path \<open>/video\<close>, named \<open>video\<close>, rendering the Video component;
  the router is built from this table and nothing else.
\<close>

theorem routes_two_pages:
  "length routes = 2 \<and>
   map path routes = [''/'', ''/video''] \<and>
   map name routes = [''home'', ''video''] \<and>
   map component routes = [HomeView, VideoView] \<and>
   router_routes (router base_url) = routes"
  by (simp add: routes_def router_def)

text \<open>
  C2. Each run of \<open>setupParticipantContainer\<close> appends exactly one container to
  \<open>#participants\<close>; its id is the participant's SID, its \<open>data-identity\<close> the
  participant's identity, and its children are exactly one \<open>audio\<close> element followed by
  one \<open>video\<close> element.
\<close>

theorem setupParticipantContainer_one_container:
  "\<exists>c a v. participantsDiv (setupParticipantContainer p r cls s) = participantsDiv s @ [c] \<and>
     cid c = sid p \<and> data_identity c = identity p \<and> childNodes c = [a, v] \<and>
     tagName a = Audio \<and> tagName v = Video"
  by (simp add: setupParticipantContainer_def createElement_def Let_def)

text \<open>
  C9. In the container that \<open>setupParticipantContainer\<close> builds (in either copy of the
  view), the \<open>video\<close> element is muted, the \<open>audio\<close> element is muted exactly when the
  participant is the room's local participant, and both elements have opacity \<open>0\<close> and
  autoplay switched on.
\<close>

theorem setupParticipantContainer_media_flags:
  "(\<exists>a v. childNodes (last (participantsDiv (setupParticipantContainer p r cls s))) = [a, v] \<and>
      tagName a = Audio \<and> tagName v = Video \<and>
      muted v \<and> (muted a \<longleftrightarrow> ref p = ref (localParticipant r)) \<and>
      opacity a = ''0'' \<and> opacity v = ''0'' \<and> autoplay a \<and> autoplay v) \<and>
   (\<exists>a v. childNodes (last (participantsDiv (setupParticipantContainer_plain p r s))) = [a, v] \<and>
      tagName a = Audio \<and> tagName v = Video \<and>
      muted v \<and> (muted a \<longleftrightarrow> ref p = ref (localParticipant r)) \<and>
      opacity a = ''0'' \<and> opacity v = ''0'' \<and> autoplay a \<and> autoplay v)"
  by (simp add: setupParticipantContainer_def setupParticipantContainer_plain_def
      createElement_def Let_def)

text \<open>
  C5. When the \<open>disconnected\<close> listener has run (of either copy of the view, returning
  or throwing), \<open>window.onbeforeunload\<close>, \<open>window.onpagehide\<close> and
  \<open>document.onvisibilitychange\<close> are all null, whatever \<open>isMobile()\<close> returns; and so
  they are after the Room's \<open>disconnected\<close> event whenever such a listener is
  registered.
\<close>

theorem disconnected_clears_handlers:
  "onbeforeunload (state_of (on_disconnected err s)) = None \<and>
   onpagehide (state_of (on_disconnected err s)) = None \<and>
   onvisibilitychange (state_of (on_disconnected err s)) = None \<and>
   onbeforeunload (state_of (on_disconnected_plain err s)) = None \<and>
   onpagehide (state_of (on_disconnected_plain err s)) = None \<and>
   onvisibilitychange (state_of (on_disconnected_plain err s)) = None \<and>
   (OnceDisconnected \<in> set (listeners s) \<or> OnceDisconnected_plain \<in> set (listeners s) \<longrightarrow>
      onbeforeunload (state_of (emit (Ev_disconnected err) s)) = None \<and>
      onpagehide (state_of (emit (Ev_disconnected err) s)) = None \<and>
      onvisibilitychange (state_of (emit (Ev_disconnected err) s)) = None)"
  using emit_disconnected_handlers [of s err]
  by (simp add: on_disconnected_handlers on_disconnected_plain_handlers)

text \<open>
  On a desktop browser (\<open>isMobile()\<close> is false) on which other code has set the two
  mobile-only handlers, the event clears them as well.
\<close>

theorem disconnected_clears_handlers_witness:
  "isMobile example_state = Fn False \<and>
   OnceDisconnected \<in> set (listeners (example_state
      \<lparr>onpagehide := Some DisconnectRoom, onvisibilitychange := Some VisibilityChange\<rparr>)) \<and>
   onbeforeunload (state_of (emit (Ev_disconnected None) (example_state
      \<lparr>onpagehide := Some DisconnectRoom, onvisibilitychange := Some VisibilityChange\<rparr>))) = None \<and>
   onpagehide (state_of (emit (Ev_disconnected None) (example_state
      \<lparr>onpagehide := Some DisconnectRoom, onvisibilitychange := Some VisibilityChange\<rparr>))) = None \<and>
   onvisibilitychange (state_of (emit (Ev_disconnected None) (example_state
      \<lparr>onpagehide := Some DisconnectRoom, onvisibilitychange := Some VisibilityChange\<rparr>))) = None"
proof -
  have m: "isMobile example_state = Fn False"
    by (simp add: example_defs view_defs Let_def)
  have l: "OnceDisconnected \<in> set (listeners (example_state
      \<lparr>onpagehide := Some DisconnectRoom, onvisibilitychange := Some VisibilityChange\<rparr>))"
    by (simp add: example_defs view_defs Let_def)
  show ?thesis
    using m l disconnected_clears_handlers [of None "example_state
      \<lparr>onpagehide := Some DisconnectRoom, onvisibilitychange := Some VisibilityChange\<rparr>"]
    by simp
qed

text \<open>
  C4. \<open>createChat\<close> reads \<open>.track\<close> of the first entry of the local participant's
  \<open>videoTracks\<close> without a guard. When the map is empty the read throws a TypeError
  right after \<open>loading\<close> and \<open>room\<close> have been set, and the returned promise is rejected
  with it; when the map has a first entry, \<open>localVideoTrack\<close> is that entry's track.
  Both copies of the view behave so.
\<close>

theorem createChat_first_video_track:
  "(videoTracks (localParticipant r) = [] \<longrightarrow>
      createChat_body r s = Throw TypeError (s\<lparr>loading := False, room := Some r\<rparr>) \<and>
      createChat (Inr r) s = reject TypeError (s\<lparr>loading := False, room := Some r\<rparr>) \<and>
      createChat_body_plain r s = Throw TypeError (s\<lparr>loading := False, room := Some r\<rparr>) \<and>
      createChat_plain (Inr r) s = reject TypeError (s\<lparr>loading := False, room := Some r\<rparr>)) \<and>
   (videoTracks (localParticipant r) = pub # rest \<longrightarrow>
      localVideoTrack (state_of (createChat_body r s)) = track pub \<and>
      localVideoTrack (state_of (createChat_body_plain r s)) = track pub)"
proof (intro conjI impI)
  assume "videoTracks (localParticipant r) = pub # rest"
  then show "localVideoTrack (state_of (createChat_body r s)) = track pub"
    by (simp add: createChat_body_frame [of r pub rest localVideoTrack])
next
  assume "videoTracks (localParticipant r) = pub # rest"
  then show "localVideoTrack (state_of (createChat_body_plain r s)) = track pub"
    by (simp add: createChat_body_plain_frame [of r pub rest localVideoTrack])
qed (simp_all add: createChat_def createChat_body_def createChat_plain_def
    createChat_body_plain_def Let_def)

theorem createChat_first_video_track_witness:
  "videoTracks (localParticipant example_room_no_video) = [] \<and>
   promise (createChat (Inr example_room_no_video) example_initial) = Rejected TypeError \<and>
   videoTracks (localParticipant example_room) = [\<lparr>pub_ref = 11, track = Some 2\<rparr>] \<and>
   localVideoTrack (state_of (createChat_body example_room example_initial)) = Some 2"
proof -
  have e: "videoTracks (localParticipant example_room_no_video) = []"
    by (simp add: example_defs)
  have n: "videoTracks (localParticipant example_room) = [\<lparr>pub_ref = 11, track = Some 2\<rparr>]"
    by (simp add: example_defs)
  have p: "promise example_initial = Pending"
    by (simp add: example_defs)
  show ?thesis
    using e n p
      createChat_first_video_track [where r = example_room_no_video and s = example_initial]
      createChat_first_video_track [where r = example_room and s = example_initial
        and pub = "\<lparr>pub_ref = 11, track = Some 2\<rparr>" and rest = "[]"]
    by (simp add: reject_def)
qed

section \<open>Muting\<close>

lemma toggleMute_each_flips:
  assumes "track pub = Some t"
  shows "\<exists>b. toggleMute_each pub s =
           Normal (s\<lparr>toggleMuteHTML := b,
                     trackHeap := (trackHeap s)
                       (t := (trackHeap s t)\<lparr>isEnabled := \<not> isEnabled (trackHeap s t)\<rparr>)\<rparr>)"
proof (cases "isEnabled (trackHeap s t)")
  case True
  with assms show ?thesis
    by (intro exI [of _ "''Unmute''"]) (simp add: toggleMute_each_def)
next
  case False
  with assms show ?thesis
    by (intro exI [of _ "''Mute''"]) (simp add: toggleMute_each_def)
qed

lemma forEach_toggleMute_each:
  assumes "None \<notin> set (map track pubs)" and "distinct (map track pubs)"
  shows "\<exists>s'. forEach toggleMute_each pubs s = Normal s' \<and>
           (\<forall>t. trackHeap s' t =
              (if Some t \<in> set (map track pubs)
               then (trackHeap s t)\<lparr>isEnabled := \<not> isEnabled (trackHeap s t)\<rparr>
               else trackHeap s t))"
  using assms
proof (induction pubs arbitrary: s)
  case Nil
  then show ?case by simp
next
  case (Cons pub pubs)
  from Cons.prems obtain t where t: "track pub = Some t" by (cases "track pub") auto
  from toggleMute_each_flips [OF t, of s] obtain b where
    step: "toggleMute_each pub s =
           Normal (s\<lparr>toggleMuteHTML := b,
                     trackHeap := (trackHeap s)
                       (t := (trackHeap s t)\<lparr>isEnabled := \<not> isEnabled (trackHeap s t)\<rparr>)\<rparr>)"
    by blast
  let ?s1 = "s\<lparr>toggleMuteHTML := b,
                trackHeap := (trackHeap s)
                  (t := (trackHeap s t)\<lparr>isEnabled := \<not> isEnabled (trackHeap s t)\<rparr>)\<rparr>"
  from Cons.prems have rest: "None \<notin> set (map track pubs)" "distinct (map track pubs)"
    and fresh: "Some t \<notin> set (map track pubs)"
    using t by auto
  from Cons.IH [OF rest, of ?s1] obtain s' where
    s': "forEach toggleMute_each pubs ?s1 = Normal s'"
    and heap: "\<And>u. trackHeap s' u =
       (if Some u \<in> set (map track pubs)
        then (trackHeap ?s1 u)\<lparr>isEnabled := \<not> isEnabled (trackHeap ?s1 u)\<rparr>
        else trackHeap ?s1 u)"
    by blast
  have "forEach toggleMute_each (pub # pubs) s = Normal s'"
    using step s' by simp
  moreover have "\<forall>u. trackHeap s' u =
      (if Some u \<in> set (map track (pub # pubs))
       then (trackHeap s u)\<lparr>isEnabled := \<not> isEnabled (trackHeap s u)\<rparr>
       else trackHeap s u)"
  proof
    fix u
    show "trackHeap s' u =
      (if Some u \<in> set (map track (pub # pubs))
       then (trackHeap s u)\<lparr>isEnabled := \<not> isEnabled (trackHeap s u)\<rparr>
       else trackHeap s u)"
    proof (cases "u = t")
      case True
      with fresh heap [of t] t show ?thesis by simp
    next
      case False
      with heap [of u] t show ?thesis by auto
    qed
  qed
  ultimately show ?case by blast
qed

lemma toggleMute_room:
  "room (state_of (toggleMute s)) = room s"
  by (rule toggleMute_frame) simp_all

text \<open>
  C6. When each local audio publication has its own track, one call of \<open>toggleMute\<close>
  returns and inverts \<open>isEnabled\<close> on the track of every local audio publication
  (an enabled one is disabled, a disabled one enabled) and leaves every other track as
  it was; a second call returns and restores the heap of tracks.
\<close>

theorem toggleMute_flips_and_restores:
  assumes "room s = Some r"
    and "None \<notin> set (map track (audioTracks (localParticipant r)))"
    and "distinct (map track (audioTracks (localParticipant r)))"
  shows "\<exists>s' s''. toggleMute s = Normal s' \<and>
           (\<forall>t. trackHeap s' t =
              (if Some t \<in> set (map track (audioTracks (localParticipant r)))
               then (trackHeap s t)\<lparr>isEnabled := \<not> isEnabled (trackHeap s t)\<rparr>
               else trackHeap s t)) \<and>
           toggleMute s' = Normal s'' \<and> trackHeap s'' = trackHeap s"
proof -
  let ?pubs = "audioTracks (localParticipant r)"
  from forEach_toggleMute_each [OF assms(2,3), of s] obtain s' where
    1: "forEach toggleMute_each ?pubs s = Normal s'"
    and h1: "\<And>t. trackHeap s' t =
       (if Some t \<in> set (map track ?pubs)
        then (trackHeap s t)\<lparr>isEnabled := \<not> isEnabled (trackHeap s t)\<rparr>
        else trackHeap s t)"
    by blast
  have t1: "toggleMute s = Normal s'"
    using 1 assms(1) by (simp add: toggleMute_def)
  have "room s' = room s"
    using toggleMute_room [of s] t1 by simp
  then have r': "room s' = Some r" using assms(1) by simp
  from forEach_toggleMute_each [OF assms(2,3), of s'] obtain s'' where
    2: "forEach toggleMute_each ?pubs s' = Normal s''"
    and h2: "\<And>t. trackHeap s'' t =
       (if Some t \<in> set (map track ?pubs)
        then (trackHeap s' t)\<lparr>isEnabled := \<not> isEnabled (trackHeap s' t)\<rparr>
        else trackHeap s' t)"
    by blast
  have t2: "toggleMute s' = Normal s''"
    using 2 r' by (simp add: toggleMute_def)
  have "trackHeap s'' = trackHeap s"
  proof
    fix t
    show "trackHeap s'' t = trackHeap s t"
      by (simp add: h2 [of t] h1 [of t])
  qed
  with t1 t2 h1 show ?thesis by blast
qed

theorem toggleMute_flips_and_restores_witness:
  "room example_state = Some example_room \<and>
   None \<notin> set (map track (audioTracks (localParticipant example_room))) \<and>
   distinct (map track (audioTracks (localParticipant example_room))) \<and>
   isEnabled (trackHeap example_state 1) \<and>
   (\<exists>s' s''. toggleMute example_state = Normal s' \<and> \<not> isEnabled (trackHeap s' 1) \<and>
      isEnabled (trackHeap s' 2) \<and>
      toggleMute s' = Normal s'' \<and> trackHeap s'' = trackHeap example_state)"
proof -
  have r: "room example_state = Some example_room"
    by (simp add: example_defs view_defs Let_def)
  have n: "None \<notin> set (map track (audioTracks (localParticipant example_room)))"
    by (simp add: example_defs)
  have d: "distinct (map track (audioTracks (localParticipant example_room)))"
    by (simp add: example_defs)
  have a: "map track (audioTracks (localParticipant example_room)) = [Some 1]"
    by (simp add: example_defs)
  have h: "trackHeap example_state = example_heap"
    by (simp add: example_defs view_defs Let_def)
  from toggleMute_flips_and_restores [OF r n d] obtain s' s'' where
    "toggleMute example_state = Normal s'"
    "\<forall>t. trackHeap s' t =
       (if Some t \<in> set (map track (audioTracks (localParticipant example_room)))
        then (trackHeap example_state t)\<lparr>isEnabled := \<not> isEnabled (trackHeap example_state t)\<rparr>
        else trackHeap example_state t)"
    "toggleMute s' = Normal s''" "trackHeap s'' = trackHeap example_state"
    by blast
  then have "toggleMute example_state = Normal s' \<and> \<not> isEnabled (trackHeap s' 1) \<and>
      isEnabled (trackHeap s' 2) \<and>
      toggleMute s' = Normal s'' \<and> trackHeap s'' = trackHeap example_state"
    by (simp add: a h example_heap_def)
  then show ?thesis using r n d h by (auto simp: example_heap_def)
qed

section \<open>The status message\<close>

lemma messageState_run:
  assumes "messageState s = ''waiting'' \<or> messageState s = ''disconnect''"
  shows "messageState (run evs s) = ''waiting'' \<or> messageState (run evs s) = ''disconnect''"
  using assms unfolding run_def
proof (induction evs arbitrary: s)
  case Nil
  then show ?case by simp
next
  case (Cons e evs)
  have "messageState (handle e s) = ''waiting'' \<or> messageState (handle e s) = ''disconnect''"
    using messageState_handle [of e s] Cons.prems by auto
  from Cons.IH [OF this] show ?case by simp
qed

text \<open>
  C7. The status message has the two states \<open>waiting\<close> and \<open>disconnect\<close>:
  \<open>messageState\<close> starts as \<open>waiting\<close>; \<open>setMessage\<close> stores its argument, and its two
  callers \<open>disconnect\<close> and \<open>participantDisconnected\<close> pass \<open>disconnect\<close>; whatever
  event the component handles, \<open>messageState\<close> stays or becomes \<open>disconnect\<close>; and in
  every state reached from the initial one the message shown is the text mapped to
  the current state.
\<close>

theorem status_message_states:
  "messageState (initial query_room query_sid mobile heap) = ''waiting'' \<and>
   dom messages = {''waiting'', ''disconnect''} \<and>
   messageState (setMessage m s) = m \<and>
   messageState (state_of (disconnect s)) = ''disconnect'' \<and>
   (participantDisconnected p s = Normal s' \<longrightarrow> messageState s' = ''disconnect'') \<and>
   (messageState (handle e s) = messageState s \<or> messageState (handle e s) = ''disconnect'') \<and>
   (messageState (run evs (initial query_room query_sid mobile heap)) = ''waiting'' \<and>
      message (run evs (initial query_room query_sid mobile heap)) =
        Some ''Waiting for participant...'' \<or>
    messageState (run evs (initial query_room query_sid mobile heap)) = ''disconnect'' \<and>
      message (run evs (initial query_room query_sid mobile heap)) =
        Some ''Participant left the call.'')"
proof (intro conjI impI)
  show "messageState (initial query_room query_sid mobile heap) = ''waiting''"
    by (simp add: initial_def)
  show "dom messages = {''waiting'', ''disconnect''}"
    by (auto simp: messages_def split: if_splits)
  show "messageState (setMessage m s) = m"
    by (simp add: setMessage_def)
  show "messageState (state_of (disconnect s)) = ''disconnect''"
    by (rule messageState_disconnect)
  show "messageState s' = ''disconnect''" if "participantDisconnected p s = Normal s'"
    using that
    by (auto simp: participantDisconnected_def setMessage_def split: option.splits node.splits)
  show "messageState (handle e s) = messageState s \<or> messageState (handle e s) = ''disconnect''"
    by (rule messageState_handle)
  have "messageState (run evs (initial query_room query_sid mobile heap)) = ''waiting'' \<or>
        messageState (run evs (initial query_room query_sid mobile heap)) = ''disconnect''"
    by (rule messageState_run) (simp add: initial_def)
  then show "messageState (run evs (initial query_room query_sid mobile heap)) = ''waiting'' \<and>
      message (run evs (initial query_room query_sid mobile heap)) =
        Some ''Waiting for participant...'' \<or>
    messageState (run evs (initial query_room query_sid mobile heap)) = ''disconnect'' \<and>
      message (run evs (initial query_room query_sid mobile heap)) =
        Some ''Participant left the call.''"
    by (auto simp: message_def messages_def)
qed

theorem status_message_states_witness:
  "messageState example_state = ''waiting'' \<and>
   message example_state = Some ''Waiting for participant...'' \<and>
   (\<exists>s'. participantDisconnected example_remote example_state = Normal s' \<and>
      messageState s' = ''disconnect'' \<and> message s' = Some ''Participant left the call.'')"
proof -
  have w: "messageState example_state = ''waiting''"
    by (simp add: example_defs createChat_frame)
  have "\<exists>s'. participantDisconnected example_remote example_state = Normal s'"
    by (simp add: example_defs view_defs Let_def)
  then obtain s' where s': "participantDisconnected example_remote example_state = Normal s'"
    by blast
  from status_message_states [where p = example_remote and s = example_state and s' = s'] s'
  have "messageState s' = ''disconnect''" by blast
  with s' w show ?thesis by (auto simp: message_def messages_def)
qed

section \<open>Leaving the room\<close>

lemma createChat_body_Normal:
  assumes "createChat_body r s0 = Normal s"
  obtains s3 where "s = executor (s3\<lparr>listeners := listeners s3 @
                      [OnParticipantConnected, OnParticipantDisconnected]\<rparr>)"
    and "isMobile s3 = isMobile s0"
proof (cases "videoTracks (localParticipant r)")
  case Nil
  with assms show ?thesis by (simp add: createChat_body_def Let_def)
next
  case (Cons pub rest)
  let ?s1 = "s0\<lparr>loading := False, room := Some r, localVideoTrack := track pub\<rparr>"
  from assms [unfolded createChat_body_unfold [OF Cons]]
  obtain s2 where 2: "participantConnected (localParticipant r) r ''local'' ?s1 = Normal s2"
    and rest: "bind (forEach (\<lambda>p. participantConnected p r ''participant'') (participants r) s2)
      (\<lambda>s3. Normal (executor (s3\<lparr>listeners := listeners s3 @
                  [OnParticipantConnected, OnParticipantDisconnected]\<rparr>))) = Normal s"
    by (rule bind_Normal)
  from rest obtain s3 where
    3: "forEach (\<lambda>p. participantConnected p r ''participant'') (participants r) s2 = Normal s3"
    and s: "Normal (executor (s3\<lparr>listeners := listeners s3 @
                  [OnParticipantConnected, OnParticipantDisconnected]\<rparr>)) = Normal s"
    by (rule bind_Normal)
  have "isMobile s2 = isMobile ?s1"
    using participantConnected_frame [of isMobile "localParticipant r" r "''local''" ?s1] 2
    by simp
  moreover have "isMobile s3 = isMobile s2"
    using forEach_keeps [of isMobile "\<lambda>p. participantConnected p r ''participant''"
        "participants r" s2, OF participantConnected_frame] 3
    by simp
  ultimately have "isMobile s3 = isMobile s0" by simp
  moreover from s have "s = executor (s3\<lparr>listeners := listeners s3 @
                  [OnParticipantConnected, OnParticipantDisconnected]\<rparr>)" by simp
  ultimately show ?thesis by (rule that [rotated])
qed

lemma createChat_body_room:
  assumes "createChat_body r s0 = Normal s"
  shows "room s = Some r"
proof (cases "videoTracks (localParticipant r)")
  case Nil
  with assms show ?thesis by (simp add: createChat_body_def Let_def)
next
  case (Cons pub rest)
  from createChat_body_frame [of r pub rest room s0, OF Cons] assms
  show ?thesis by simp
qed

lemma createChat_body_handlers:
  assumes "createChat_body r s0 = Normal s"
  shows "onbeforeunload s = Some DisconnectRoom"
    and "call (isMobile s0) \<Longrightarrow> onpagehide s = Some DisconnectRoom"
    and "call (isMobile s0) \<Longrightarrow> onvisibilitychange s = Some VisibilityChange"
proof -
  from assms obtain s3 where s: "s = executor (s3\<lparr>listeners := listeners s3 @
                      [OnParticipantConnected, OnParticipantDisconnected]\<rparr>)"
    and m: "isMobile s3 = isMobile s0"
    by (rule createChat_body_Normal)
  show "onbeforeunload s = Some DisconnectRoom"
    by (simp add: s executor_def Let_def)
  show "onpagehide s = Some DisconnectRoom" if "call (isMobile s0)"
    using that by (simp add: s m executor_def Let_def)
  show "onvisibilitychange s = Some VisibilityChange" if "call (isMobile s0)"
    using that by (simp add: s m executor_def Let_def)
qed

text \<open>The events after which the handlers of the session are gone or set anew.\<close>

lemma armed_react:
  assumes "react l ev = Some h" and "\<forall>err. ev \<noteq> Ev_disconnected err"
  shows "onbeforeunload (state_of (h s)) = onbeforeunload s \<and>
         onpagehide (state_of (h s)) = onpagehide s \<and>
         room (state_of (h s)) = room s"
  using react_cases [OF assms(1)] assms(2)
  by (elim disjE exE conjE)
    (simp_all add: trackPublished_frame attachTrack_frame detachTrack_frame
      participantConnected_frame participantConnected_plain_frame
      participantDisconnected_frame participantDisconnected_plain_frame
      split: option.splits)

lemma room_react:
  assumes "react l ev = Some h"
  shows "room (state_of (h s)) = room s"
  using react_cases [OF assms]
  by (elim disjE exE conjE)
    (simp_all add: trackPublished_frame attachTrack_frame detachTrack_frame
      participantConnected_frame participantConnected_plain_frame
      participantDisconnected_frame participantDisconnected_plain_frame
      on_disconnected_frame on_disconnected_plain_frame split: option.splits)

text \<open>
  \<open>room.disconnect()\<close> as the Room shows it afterwards: one more call, and the Room is
  disconnected; the listeners that run inside the call leave the Room alone.
\<close>

lemma room_disconnect_room:
  assumes "room s = Some r"
  shows "room (state_of (room_disconnect s)) =
         Some (r\<lparr>disconnectCalls := Suc (disconnectCalls r), roomState := RoomDisconnected\<rparr>)"
proof (cases "roomState r = RoomDisconnected")
  case True
  then have "r\<lparr>disconnectCalls := Suc (disconnectCalls r), roomState := RoomDisconnected\<rparr> =
             r\<lparr>disconnectCalls := Suc (disconnectCalls r)\<rparr>"
    by (cases r) simp
  with True assms show ?thesis by (simp add: room_disconnect_def)
next
  case False
  let ?s1 = "s\<lparr>room := Some (r\<lparr>disconnectCalls := Suc (disconnectCalls r)\<rparr>)\<rparr>"
  have "room (state_of (deliver (Ev_disconnected None) ?s1)) =
        Some (r\<lparr>disconnectCalls := Suc (disconnectCalls r), roomState := RoomDisconnected\<rparr>)"
    by (rule deliver_invariant [where P = "\<lambda>s'::state. room s' =
          Some (r\<lparr>disconnectCalls := Suc (disconnectCalls r), roomState := RoomDisconnected\<rparr>)"])
      (simp_all add: room_react sdk_room_def)
  with False assms show ?thesis by (simp add: room_disconnect_def)
qed

lemma armed_handle:
  assumes "\<not> rewires e"
  shows "onbeforeunload (handle e s) = onbeforeunload s \<and>
         onpagehide (handle e s) = onpagehide s \<and>
         (room (handle e s) = None \<longleftrightarrow> room s = None)"
proof (cases e)
  case (Connect_settled c)
  with assms show ?thesis by simp
next
  case Click_toggleMute
  then show ?thesis by (simp add: toggleMute_frame)
next
  case Click_disconnect
  with assms show ?thesis by simp
next
  case Window_beforeunload
  with assms show ?thesis by simp
next
  case Window_pagehide
  with assms show ?thesis by simp
next
  case (Sdk ev)
  with assms have ev: "\<forall>err. ev \<noteq> Ev_disconnected err" by auto
  have "onbeforeunload (state_of (deliver ev s)) = onbeforeunload s \<and>
        onpagehide (state_of (deliver ev s)) = onpagehide s \<and>
        (room (state_of (deliver ev s)) = None \<longleftrightarrow> room s = None)"
    by (rule deliver_invariant [where P = "\<lambda>s'::state. onbeforeunload s' = onbeforeunload s \<and>
          onpagehide s' = onpagehide s \<and> (room s' = None \<longleftrightarrow> room s = None)"])
      (use armed_react [OF _ ev] in \<open>auto simp: sdk_room_def split: option.splits\<close>)
  with Sdk show ?thesis by simp
qed

lemma armed_run:
  assumes "list_all (\<lambda>e. \<not> rewires e) evs"
  shows "onbeforeunload (run evs s) = onbeforeunload s \<and>
         onpagehide (run evs s) = onpagehide s \<and>
         (room (run evs s) = None \<longleftrightarrow> room s = None)"
  using assms unfolding run_def
proof (induction evs arbitrary: s)
  case Nil
  then show ?case by simp
next
  case (Cons e evs)
  then have e: "\<not> rewires e" and evs: "list_all (\<lambda>e. \<not> rewires e) evs" by simp_all
  from Cons.IH [OF evs, of "handle e s"] armed_handle [OF e, of s]
  show ?case by simp
qed

text \<open>
  C8. When the body of \<open>createChat\<close> has completed, and as long as the handlers have
  not been touched since (no further \<open>connect\<close> has settled and the \<open>disconnected\<close>
  listener has not run), the Room exists; the \<open>beforeunload\<close> event makes exactly the
  call \<open>room.disconnect()\<close>, after which the Room has counted one more call and is
  disconnected; so does the \<open>pagehide\<close> event when \<open>isMobile()\<close> returned true; and
  the Disconnect button sets the message state to \<open>disconnect\<close> and then makes the
  same call, the message state still being \<open>disconnect\<close> afterwards.
\<close>

theorem unload_and_disconnect_button:
  assumes "createChat_body r s0 = Normal s"
    and "list_all (\<lambda>e. \<not> rewires e) evs"
  shows "room s = Some r \<and>
    (\<exists>r'. room (run evs s) = Some r' \<and>
       fire_beforeunload (run evs s) = room_disconnect (run evs s) \<and>
       room (state_of (fire_beforeunload (run evs s))) =
         Some (r'\<lparr>disconnectCalls := Suc (disconnectCalls r'), roomState := RoomDisconnected\<rparr>) \<and>
       (call (isMobile s0) \<longrightarrow>
          fire_pagehide (run evs s) = room_disconnect (run evs s) \<and>
          room (state_of (fire_pagehide (run evs s))) =
            Some (r'\<lparr>disconnectCalls := Suc (disconnectCalls r'),
                    roomState := RoomDisconnected\<rparr>)) \<and>
       disconnect (run evs s) = room_disconnect (setMessage ''disconnect'' (run evs s)) \<and>
       messageState (setMessage ''disconnect'' (run evs s)) = ''disconnect'' \<and>
       messageState (state_of (disconnect (run evs s))) = ''disconnect'' \<and>
       room (state_of (disconnect (run evs s))) =
         Some (r'\<lparr>disconnectCalls := Suc (disconnectCalls r'), roomState := RoomDisconnected\<rparr>))"
proof -
  have r: "room s = Some r" by (rule createChat_body_room [OF assms(1)])
  have b: "onbeforeunload (run evs s) = Some DisconnectRoom"
    using armed_run [OF assms(2), of s] createChat_body_handlers(1) [OF assms(1)] by simp
  have p: "onpagehide (run evs s) = Some DisconnectRoom" if "call (isMobile s0)"
    using armed_run [OF assms(2), of s] createChat_body_handlers(2) [OF assms(1) that] by simp
  from armed_run [OF assms(2), of s] r obtain r' where r': "room (run evs s) = Some r'"
    by auto
  have fb: "fire_beforeunload (run evs s) = room_disconnect (run evs s)"
    using b by (simp add: fire_beforeunload_def)
  have fp: "fire_pagehide (run evs s) = room_disconnect (run evs s)" if "call (isMobile s0)"
    using p [OF that] by (simp add: fire_pagehide_def)
  have rd: "room (state_of (room_disconnect (run evs s))) =
      Some (r'\<lparr>disconnectCalls := Suc (disconnectCalls r'), roomState := RoomDisconnected\<rparr>)"
    by (rule room_disconnect_room [OF r'])
  have d: "disconnect (run evs s) = room_disconnect (setMessage ''disconnect'' (run evs s))"
    by (simp add: disconnect_def)
  have "room (setMessage ''disconnect'' (run evs s)) = Some r'"
    using r' by (simp add: setMessage_def)
  from room_disconnect_room [OF this]
  have dr: "room (state_of (disconnect (run evs s))) =
      Some (r'\<lparr>disconnectCalls := Suc (disconnectCalls r'), roomState := RoomDisconnected\<rparr>)"
    by (simp add: d)
  have m: "messageState (setMessage ''disconnect'' (run evs s)) = ''disconnect''"
    by (simp add: setMessage_def)
  show ?thesis
    using r r' fb fp rd d dr m messageState_disconnect [of "run evs s"] by auto
qed

theorem unload_and_disconnect_button_witness:
  "createChat_body example_room example_mobile_initial = Normal example_mobile_state \<and>
   list_all (\<lambda>e. \<not> rewires e) [Click_toggleMute, Sdk (Ev_participantDisconnected example_remote)] \<and>
   call (isMobile example_mobile_initial) \<and>
   (\<exists>r'. room (run [Click_toggleMute, Sdk (Ev_participantDisconnected example_remote)]
             example_mobile_state) = Some r' \<and>
      fire_beforeunload (run [Click_toggleMute, Sdk (Ev_participantDisconnected example_remote)]
          example_mobile_state) =
        room_disconnect (run [Click_toggleMute, Sdk (Ev_participantDisconnected example_remote)]
          example_mobile_state) \<and>
      room (state_of (fire_beforeunload
          (run [Click_toggleMute, Sdk (Ev_participantDisconnected example_remote)]
            example_mobile_state))) =
        Some (r'\<lparr>disconnectCalls := Suc (disconnectCalls r'), roomState := RoomDisconnected\<rparr>) \<and>
      room (state_of (fire_pagehide
          (run [Click_toggleMute, Sdk (Ev_participantDisconnected example_remote)]
            example_mobile_state))) =
        Some (r'\<lparr>disconnectCalls := Suc (disconnectCalls r'), roomState := RoomDisconnected\<rparr>) \<and>
      messageState (state_of (disconnect
          (run [Click_toggleMute, Sdk (Ev_participantDisconnected example_remote)]
            example_mobile_state))) = ''disconnect'' \<and>
      room (state_of (disconnect
          (run [Click_toggleMute, Sdk (Ev_participantDisconnected example_remote)]
            example_mobile_state))) =
        Some (r'\<lparr>disconnectCalls := Suc (disconnectCalls r'), roomState := RoomDisconnected\<rparr>))"
proof -
  have c: "createChat_body example_room example_mobile_initial = Normal example_mobile_state"
    by (simp add: example_defs view_defs Let_def)
  have l: "list_all (\<lambda>e. \<not> rewires e)
             [Click_toggleMute, Sdk (Ev_participantDisconnected example_remote)]"
    by simp
  have m: "call (isMobile example_mobile_initial)"
    by (simp add: example_defs)
  from unload_and_disconnect_button [OF c l] c l m show ?thesis by blast
qed

section \<open>Containers\<close>

lemma index_of_None_iff:
  "index_of P xs = None \<longleftrightarrow> (\<forall>x \<in> set xs. \<not> P x)"
  by (induction xs) auto

lemma remove_nth_cid:
  assumes "index_of (\<lambda>c. cid c = i) cs = Some n"
  shows "map cid (remove_nth n cs) = remove1 i (map cid cs)"
  using assms
proof (induction cs arbitrary: n)
  case Nil
  then show ?case by simp
next
  case (Cons c cs)
  show ?case
  proof (cases "cid c = i")
    case True
    with Cons.prems show ?thesis by (simp add: remove_nth_def)
  next
    case False
    with Cons.prems obtain m where m: "index_of (\<lambda>c. cid c = i) cs = Some m" and n: "n = Suc m"
      by auto
    from Cons.IH [OF m] False show ?thesis
      by (auto simp: n remove_nth_def)
  qed
qed


lemma container_ids_frame [simp]:
  "container_ids (s\<lparr>listeners := ls\<rparr>) = container_ids s"
  "container_ids (s\<lparr>messageDisplay := md\<rparr>) = container_ids s"
  "container_ids (s\<lparr>messageState := ms\<rparr>) = container_ids s"
  "container_ids (s\<lparr>toggleMuteHTML := b\<rparr>) = container_ids s"
  "container_ids (s\<lparr>trackHeap := h\<rparr>) = container_ids s"
  "container_ids (s\<lparr>room := r\<rparr>) = container_ids s"
  "container_ids (s\<lparr>loading := l\<rparr>) = container_ids s"
  "container_ids (s\<lparr>localVideoTrack := v\<rparr>) = container_ids s"
  "container_ids (s\<lparr>promise := pr\<rparr>) = container_ids s"
  "container_ids (s\<lparr>onbeforeunload := u\<rparr>) = container_ids s"
  "container_ids (s\<lparr>onpagehide := u\<rparr>) = container_ids s"
  "container_ids (s\<lparr>onvisibilitychange := w\<rparr>) = container_ids s"
  "container_ids (s\<lparr>window_room := r\<rparr>) = container_ids s"
  by (simp_all add: container_ids_def)








text \<open>
  Removing a participant's container: the first container with the participant's SID
  goes; without one, or for the id of \<open>#participants\<close> itself, the call throws and
  nothing changes.
\<close>

lemma participantDisconnected_Normal:
  assumes "participantDisconnected p s = Normal s'"
  shows "container_ids s' = remove1 (sid p) (container_ids s)"
  using assms
  by (auto simp: participantDisconnected_def querySelector_id_def container_ids_def
      setMessage_def remove_nth_cid split: option.splits node.splits if_splits)



lemma participantDisconnected_ids:
  assumes "sid p \<noteq> ''participants''"
  shows "container_ids (state_of (participantDisconnected p s)) = remove1 (sid p) (container_ids s)"
proof (cases "participantDisconnected p s")
  case (Normal s')
  then show ?thesis by (simp add: participantDisconnected_Normal)
next
  case (Throw e s')
  then have "s' = s" and "index_of (\<lambda>c. cid c = sid p) (participantsDiv s) = None"
    using assms
    by (auto simp: participantDisconnected_def querySelector_id_def
        split: option.splits node.splits if_splits)
  then have "sid p \<notin> set (container_ids s)"
    by (auto simp: index_of_None_iff container_ids_def)
  then show ?thesis using Throw \<open>s' = s\<close> by (simp add: remove1_idem)
qed










section \<open>The session's Room listeners\<close>

lemma room_listeners_frame [simp]:
  "room_listeners (s\<lparr>participantsDiv := cs\<rparr>) = room_listeners s"
  "room_listeners (s\<lparr>messageDisplay := md\<rparr>) = room_listeners s"
  "room_listeners (s\<lparr>messageState := ms\<rparr>) = room_listeners s"
  "room_listeners (s\<lparr>toggleMuteHTML := b\<rparr>) = room_listeners s"
  "room_listeners (s\<lparr>trackHeap := h\<rparr>) = room_listeners s"
  "room_listeners (s\<lparr>room := r\<rparr>) = room_listeners s"
  "room_listeners (s\<lparr>loading := l\<rparr>) = room_listeners s"
  "room_listeners (s\<lparr>localVideoTrack := v\<rparr>) = room_listeners s"
  "room_listeners (s\<lparr>promise := pr\<rparr>) = room_listeners s"
  "room_listeners (s\<lparr>onbeforeunload := u\<rparr>) = room_listeners s"
  "room_listeners (s\<lparr>onpagehide := u\<rparr>) = room_listeners s"
  "room_listeners (s\<lparr>onvisibilitychange := w\<rparr>) = room_listeners s"
  "room_listeners (s\<lparr>window_room := r\<rparr>) = room_listeners s"
  by (simp_all add: room_listeners_def)

lemma trackPublished_room_listeners:
  "room_listeners (state_of (trackPublished pub p s)) = room_listeners s"
  unfolding trackPublished_def
proof (rule bind_keeps)
  show "room_listeners (state_of (case track pub of None \<Rightarrow> Normal s
          | Some t \<Rightarrow> attachTrack t p s)) = room_listeners s"
    by (simp add: attachTrack_frame [of room_listeners] split: option.splits)
qed (simp add: room_listeners_def)

lemma participantConnected_room_listeners:
  "room_listeners (state_of (participantConnected p r cls s)) = room_listeners s"
  unfolding participantConnected_def
proof (rule bind_keeps)
  show "room_listeners (state_of (forEach (\<lambda>pub. trackPublished pub p) (tracks p)
          (setupParticipantContainer p r cls s))) = room_listeners s"
    using forEach_keeps [of room_listeners "\<lambda>pub. trackPublished pub p",
        OF trackPublished_room_listeners]
    by (simp add: setupParticipantContainer_def Let_def)
qed (simp add: room_listeners_def)

lemma participantConnected_plain_room_listeners:
  "room_listeners (state_of (participantConnected_plain p r s)) = room_listeners s"
  unfolding participantConnected_plain_def
proof (rule bind_keeps)
  show "room_listeners (state_of (forEach (\<lambda>pub. trackPublished pub p) (tracks p)
          (setupParticipantContainer_plain p r s))) = room_listeners s"
    using forEach_keeps [of room_listeners "\<lambda>pub. trackPublished pub p",
        OF trackPublished_room_listeners]
    by (simp add: setupParticipantContainer_plain_def Let_def)
qed (simp add: room_listeners_def)










lemma live_react:
  assumes "react l ev = Some h" and "\<forall>err. ev \<noteq> Ev_disconnected err"
  shows "room_listeners (state_of (h s)) = room_listeners s"
  using react_cases [OF assms(1)] assms(2)
  by (elim disjE exE conjE)
    (simp_all add: trackPublished_room_listeners attachTrack_frame [of room_listeners]
      detachTrack_frame [of room_listeners] participantConnected_room_listeners
      participantConnected_plain_room_listeners
      participantDisconnected_frame [of room_listeners]
      participantDisconnected_plain_frame [of room_listeners] split: option.splits)

lemma live_handle:
  assumes "\<not> rewires e" and "live s"
  shows "live (handle e s)"
proof -
  have "room_listeners (handle e s) = room_listeners s"
  proof (cases e)
    case (Connect_settled c)
    with assms show ?thesis by simp
  next
    case Click_toggleMute
    then show ?thesis by (simp add: toggleMute_frame [of room_listeners])
  next
    case Click_disconnect
    with assms show ?thesis by simp
  next
    case Window_beforeunload
    with assms show ?thesis by simp
  next
    case Window_pagehide
    with assms show ?thesis by simp
  next
    case (Sdk ev)
    with assms have ev: "\<forall>err. ev \<noteq> Ev_disconnected err" by auto
    have "room_listeners (state_of (deliver ev s)) = room_listeners s"
      by (rule deliver_invariant [where P = "\<lambda>s'::state. room_listeners s' = room_listeners s"])
        (use live_react [OF _ ev] in \<open>auto simp: sdk_room_frame [of room_listeners]\<close>)
    with Sdk show ?thesis by simp
  qed
  with assms(2) show ?thesis by (simp add: live_def)
qed

section \<open>Sessions\<close>









lemma session_cong:
  assumes "room s' = room s" and "room_listeners s' = room_listeners s"
    and "container_ids s' = container_ids s" and "localVideoTrack s' = localVideoTrack s"
    and "onbeforeunload s' = onbeforeunload s"
  shows "session s' = session s" and "session_plain s' = session_plain s"
  using assms
  by (auto simp: session_def session_plain_def live_def live_plain_def split: option.splits)

lemma live_sdk_room [simp]:
  "live (sdk_room ev s) = live s" "live_plain (sdk_room ev s) = live_plain s"
  by (simp_all add: live_def live_plain_def sdk_room_frame [of room_listeners])





lemma session_setMessage [simp]:
  "session (setMessage m s) = session s"
  by (rule session_cong) (simp_all add: setMessage_def)

section \<open>Sessions of the second copy of the view\<close>














section \<open>The promise\<close>





lemma settle_frame_ids [simp]:
  "container_ids (reject e s) = container_ids s" "container_ids (resolve s) = container_ids s"
  by (simp_all add: reject_def resolve_def)





lemma session_promise_setMessage [simp]:
  "promise (setMessage m s) = promise s"
  by (simp add: setMessage_def)








section \<open>The containers over a session\<close>







end
